theory Spec2Isabelle
  imports Main
begin

section \<open>Go values used by the test-proxy transport\<close>

text \<open>
  The repository holds three variants of the same small package \<^verbatim>\<open>testproxy\<close>:
  \<^item> \<^verbatim>\<open>testproxytransport.go\<close>: types \<^verbatim>\<open>TestProxyTransport\<close> and \<^verbatim>\<open>TestProxyVariables\<close>;
  \<^item> the variant with type \<^verbatim>\<open>TestProxy\<close>, a per-call policy on \<^verbatim>\<open>policy.Request\<close>
    (two copies that differ in comments only);
  \<^item> the variant with type \<^verbatim>\<open>TestProxyVariable\<close>, a transport on \<^verbatim>\<open>http.Request\<close>.
  Each variant is embedded under its own names. What the code takes from Go's standard
  library (\<^verbatim>\<open>fmt\<close>, \<^verbatim>\<open>net/http\<close>, \<^verbatim>\<open>net/textproto\<close>) is written out below as far as
  the code uses it; what it takes from the outside world (the HTTP client, the URL parser,
  the JSON codec) is a parameter.

  Requests and responses are values. A function that changes a request in place returns
  the changed request; \<^verbatim>\<open>Do\<close> is split into the statements before the send, which yield
  the request as it is sent, and the statements after it, which yield the response as it
  is returned. A response refers to its request by value, so whether that request is the
  very object \<^verbatim>\<open>Do\<close> was given is not represented; no statement below depends on it.
  A pointer a function is called with (the request of \<^verbatim>\<open>Do\<close>, the receiver, the session
  of \<^verbatim>\<open>testproxytransport.go\<close>) stands for the object behind it. The pointers the code
  tests against \<^verbatim>\<open>nil\<close>, the pointer and map fields it reads (\<^verbatim>\<open>req.URL\<close>,
  \<^verbatim>\<open>req.Header\<close>, \<^verbatim>\<open>resp.Request\<close>) and the response a send returns may be \<^verbatim>\<open>nil\<close>:
  they are options, and using a \<^verbatim>\<open>nil\<close> one is a panic.
\<close>

subsection \<open>Formatting an integer: the verbs \<^verbatim>\<open>%d\<close> and \<^verbatim>\<open>%v\<close> of \<^verbatim>\<open>fmt.Sprintf\<close>\<close>

definition digit_char :: "nat \<Rightarrow> char" where
  "digit_char d = ''0123456789'' ! d"

fun nat_decimal :: "nat \<Rightarrow> string" where
  "nat_decimal n =
     (if n < 10 then [digit_char n] else nat_decimal (n div 10) @ [digit_char (n mod 10)])"

declare nat_decimal.simps [simp del]

definition Itoa :: "int \<Rightarrow> string" where
  "Itoa i = (if i < 0 then CHR ''-'' # nat_decimal (nat (- i)) else nat_decimal (nat i))"

subsection \<open>Errors and panics\<close>

text \<open>
  An \<^verbatim>\<open>error\<close> value is either made by this package with \<^verbatim>\<open>fmt.Errorf\<close> (its text is
  known) or handed over by a library call (client, parser, reader, codec); the argument is
  what \<^verbatim>\<open>err.Error()\<close> returns. A Go function returning \<^verbatim>\<open>error\<close> returns
  \<open>error option\<close> here, \<open>None\<close> for \<^verbatim>\<open>nil\<close>.
\<close>

datatype error = Errorf string | External string

fun Error_text :: "error \<Rightarrow> string" where
  "Error_text (Errorf s) = s"
| "Error_text (External s) = s"

text \<open>
  A run-time panic ends the call without a result: reading a field through a \<^verbatim>\<open>nil\<close>
  pointer, or storing into a \<^verbatim>\<open>nil\<close> map.
\<close>

datatype panic = NilPointerDereference | NilMapAssignment

datatype 'a exec = Panics panic | Returns 'a

subsection \<open>\<^verbatim>\<open>http.Header\<close>\<close>

text \<open>
  A header is a map from canonical keys to lists of values. \<^verbatim>\<open>Set\<close> and \<^verbatim>\<open>Get\<close> first
  bring the key into canonical form (\<^verbatim>\<open>textproto.CanonicalMIMEHeaderKey\<close>): when every byte
  is a token character, the first letter and each letter after a hyphen become upper case
  and the other letters lower case; otherwise the key is left as it is.
\<close>

type_synonym Header = "string \<rightharpoonup> string list"

definition lower_letters :: string where
  "lower_letters = ''abcdefghijklmnopqrstuvwxyz''"

definition upper_letters :: string where
  "upper_letters = ''ABCDEFGHIJKLMNOPQRSTUVWXYZ''"

definition isLower :: "char \<Rightarrow> bool" where
  "isLower c = (c \<in> set lower_letters)"

definition isUpper :: "char \<Rightarrow> bool" where
  "isUpper c = (c \<in> set upper_letters)"

definition toUpper :: "char \<Rightarrow> char" where
  "toUpper c = (case map_of (zip lower_letters upper_letters) c of Some d \<Rightarrow> d | None \<Rightarrow> c)"

definition toLower :: "char \<Rightarrow> char" where
  "toLower c = (case map_of (zip upper_letters lower_letters) c of Some d \<Rightarrow> d | None \<Rightarrow> c)"

definition validHeaderFieldByte :: "char \<Rightarrow> bool" where
  "validHeaderFieldByte c =
     (c \<in> set (lower_letters @ upper_letters @ ''0123456789'' @ ''!#$%&*+-.^_`|~'' @ [CHR 0x27]))"

fun canonicalMIMEHeaderKey :: "bool \<Rightarrow> string \<Rightarrow> string" where
  "canonicalMIMEHeaderKey upper [] = []"
| "canonicalMIMEHeaderKey upper (c # cs) =
     (let c' = (if upper \<and> isLower c then toUpper c
                else if \<not> upper \<and> isUpper c then toLower c
                else c)
      in c' # canonicalMIMEHeaderKey (c' = CHR ''-'') cs)"

definition CanonicalMIMEHeaderKey :: "string \<Rightarrow> string" where
  "CanonicalMIMEHeaderKey s =
     (if list_all validHeaderFieldByte s then canonicalMIMEHeaderKey True s else s)"

definition Header_Set :: "Header \<Rightarrow> string \<Rightarrow> string \<Rightarrow> Header" where
  "Header_Set h key v = h(CanonicalMIMEHeaderKey key \<mapsto> [v])"

definition Header_Get :: "Header \<Rightarrow> string \<Rightarrow> string" where
  "Header_Get h key =
     (case h (CanonicalMIMEHeaderKey key) of
        None \<Rightarrow> []
      | Some [] \<Rightarrow> []
      | Some (v # _) \<Rightarrow> v)"

subsection \<open>\<^verbatim>\<open>url.URL\<close>, \<^verbatim>\<open>http.Request\<close>, \<^verbatim>\<open>http.Response\<close>\<close>

text \<open>
  Pointer and map fields that may be \<^verbatim>\<open>nil\<close> are options. A request body is the bytes
  it yields; a response body is what \<^verbatim>\<open>io.ReadAll\<close> makes of it, the bytes or the read
  error. \<open>Resp_Request\<close> is the response's reference to the request it answers.
\<close>

record URL =
  URL_Scheme :: string
  URL_Host :: string
  URL_Path :: string
  URL_RawQuery :: string
  URL_Fragment :: string

record Request =
  Req_Method :: string
  Req_URL :: "URL option"
  Req_Header :: "Header option"
  Req_Body :: "string option"
  Req_ContentLength :: int
  Req_Host :: string

record Response =
  Resp_StatusCode :: int
  Resp_Header :: Header
  Resp_Body :: "error + string"
  Resp_Request :: "Request option"

text \<open>
  Sending a request (\<^verbatim>\<open>http.Client.Do\<close>, \<^verbatim>\<open>policy.Transporter.Do\<close>, the rest of a
  pipeline behind \<^verbatim>\<open>policy.Request.Next\<close>) yields a response pointer and an error.
\<close>

type_synonym roundtrip = "Request \<Rightarrow> Response option \<times> error option"

text \<open>
  \<^verbatim>\<open>req.Header.Set(key, value)\<close> on a request: a panic when the header map is \<^verbatim>\<open>nil\<close>.
\<close>

definition Request_Header_Set :: "Request \<Rightarrow> string \<Rightarrow> string \<Rightarrow> Request exec" where
  "Request_Header_Set req key v =
     (case Req_Header req of
        None \<Rightarrow> Panics NilMapAssignment
      | Some h \<Rightarrow> Returns (req\<lparr>Req_Header := Some (Header_Set h key v)\<rparr>))"

text \<open>
  \<^verbatim>\<open>http.NewRequest(method, url, nil)\<close> for a valid method: the URL is parsed (the parser
  is a parameter and includes the host normalisation of \<^verbatim>\<open>NewRequest\<close>), and the request
  starts with an empty header map, no body, and the URL's host as its \<^verbatim>\<open>Host\<close>.
\<close>

definition NewRequest :: "(string \<Rightarrow> error + URL) \<Rightarrow> string \<Rightarrow> string \<Rightarrow> error + Request" where
  "NewRequest url_Parse method url =
     (case url_Parse url of
        Inl e \<Rightarrow> Inl e
      | Inr u \<Rightarrow> Inr \<lparr>Req_Method = method, Req_URL = Some u, Req_Header = Some Map.empty,
                     Req_Body = None, Req_ContentLength = 0, Req_Host = URL_Host u\<rparr>)"

text \<open>The header names of \<^verbatim>\<open>TestProxyHeader\<close>.\<close>

definition RecordingIdHeader :: string where
  "RecordingIdHeader = ''x-recording-id''"

definition RecordingModeHeader :: string where
  "RecordingModeHeader = ''x-recording-mode''"

definition RecordingUpstreamURIHeader :: string where
  "RecordingUpstreamURIHeader = ''x-recording-upstream-base-uri''"

definition exec_bind :: "'a exec \<Rightarrow> ('a \<Rightarrow> 'b exec) \<Rightarrow> 'b exec" where
  "exec_bind m f = (case m of Panics p \<Rightarrow> Panics p | Returns x \<Rightarrow> f x)"

text \<open>
  What the package reads from its surroundings: \<^verbatim>\<open>url.Parse\<close> (inside
  \<^verbatim>\<open>http.NewRequest\<close>), \<^verbatim>\<open>path.Join\<close>, \<^verbatim>\<open>json.Marshal\<close> of a string map,
  \<^verbatim>\<open>json.Unmarshal\<close> into a \<^verbatim>\<open>map[string]interface{}\<close> (only its error is used), and
  the package-level \<^verbatim>\<open>client\<close>.
\<close>

record Env =
  url_Parse :: "string \<Rightarrow> error + URL"
  path_Join :: "string list \<Rightarrow> string"
  json_Marshal :: "(string \<times> string) list \<Rightarrow> error + string"
  json_Unmarshal :: "string \<Rightarrow> error option"
  client :: roundtrip

text \<open>
  \<^verbatim>\<open>getRecordingFilePath\<close>; the test \<^verbatim>\<open>t\<close> is represented by \<^verbatim>\<open>t.Name()\<close>.
\<close>

definition getRecordingFilePath :: "Env \<Rightarrow> string \<Rightarrow> string \<Rightarrow> string" where
  "getRecordingFilePath env recordingPath t =
     path_Join env [recordingPath, ''recordings'', t @ ''.json'']"

text \<open>
  The end of both \<^verbatim>\<open>TestProxy.Do\<close> and \<^verbatim>\<open>TestProxyVariable.Do\<close>, applied to what the
  send returned:
  \<^verbatim>\<open>if resp != nil { resp.Request.URL.Scheme = oriSchema; resp.Request.URL.Host = oriHost }\<close>
  \<^verbatim>\<open>return resp, err\<close>.
\<close>

definition restore_target ::
  "string \<Rightarrow> string \<Rightarrow> Response option \<times> error option \<Rightarrow> (Response option \<times> error option) exec" where
  "restore_target oriSchema oriHost r =
     (case r of
        (None, err) \<Rightarrow> Returns (None, err)
      | (Some resp, err) \<Rightarrow>
          (case Resp_Request resp of
             None \<Rightarrow> Panics NilPointerDereference
           | Some q \<Rightarrow>
               (case Req_URL q of
                  None \<Rightarrow> Panics NilPointerDereference
                | Some qu \<Rightarrow>
                    Returns (Some (resp\<lparr>Resp_Request :=
                      Some (q\<lparr>Req_URL := Some (qu\<lparr>URL_Scheme := oriSchema, URL_Host := oriHost\<rparr>)\<rparr>)\<rparr>),
                      err))))"

text \<open>
  Reading a request's target (\<^verbatim>\<open>req.URL.Scheme\<close>, \<^verbatim>\<open>req.URL.Host\<close>), the target of the
  request a response refers to (\<^verbatim>\<open>resp.Request.URL\<close>), and a request header
  (\<^verbatim>\<open>req.Header.Get(key)\<close>, which is the empty string on a \<^verbatim>\<open>nil\<close> map).
\<close>

definition Request_target :: "Request \<Rightarrow> (string \<times> string) option" where
  "Request_target req =
     (case Req_URL req of None \<Rightarrow> None | Some u \<Rightarrow> Some (URL_Scheme u, URL_Host u))"

definition Response_target :: "Response \<Rightarrow> (string \<times> string) option" where
  "Response_target resp =
     (case Resp_Request resp of None \<Rightarrow> None | Some q \<Rightarrow> Request_target q)"

definition Request_Header_Get :: "Request \<Rightarrow> string \<Rightarrow> string" where
  "Request_Header_Get req key =
     (case Req_Header req of None \<Rightarrow> [] | Some h \<Rightarrow> Header_Get h key)"

section \<open>The variant with \<^verbatim>\<open>TestProxyVariable\<close>: scheme chosen by port\<close>

record TestProxyVariable =
  tpv_Client :: roundtrip
  tpv_Host :: string
  tpv_Port :: int
  tpv_Mode :: string
  tpv_RecordingId :: string
  tpv_RecordingPath :: string

definition NewTestProxy :: "Env \<Rightarrow> TestProxyVariable" where
  "NewTestProxy env =
     \<lparr>tpv_Client = client env, tpv_Host = [], tpv_Port = 0, tpv_Mode = [],
      tpv_RecordingId = [], tpv_RecordingPath = []\<rparr>"

definition TestProxyVariable_host :: "TestProxyVariable \<Rightarrow> string" where
  "TestProxyVariable_host tpv = tpv_Host tpv @ '':'' @ Itoa (tpv_Port tpv)"

definition TestProxyVariable_scheme :: "TestProxyVariable \<Rightarrow> string" where
  "TestProxyVariable_scheme tpv = (if tpv_Port tpv = 5001 then ''https'' else ''http'')"

definition TestProxyVariable_baseURL :: "TestProxyVariable \<Rightarrow> string" where
  "TestProxyVariable_baseURL tpv =
     TestProxyVariable_scheme tpv @ ''://'' @ tpv_Host tpv @ '':'' @ Itoa (tpv_Port tpv)"

text \<open>
  \<^verbatim>\<open>Do\<close> up to the call of the client: the captured scheme and host, and the request as
  it is handed to the client.
\<close>

definition TestProxyVariable_Do_rewrite ::
  "TestProxyVariable \<Rightarrow> Request \<Rightarrow> (string \<times> string \<times> Request) exec" where
  "TestProxyVariable_Do_rewrite tpv req =
     (case Req_URL req of
        None \<Rightarrow> Panics NilPointerDereference
      | Some u \<Rightarrow>
          (let oriSchema = URL_Scheme u;
               oriHost = URL_Host u;
               u1 = u\<lparr>URL_Scheme := TestProxyVariable_scheme tpv\<rparr>;
               u2 = u1\<lparr>URL_Host := TestProxyVariable_host tpv\<rparr>;
               req1 = req\<lparr>Req_URL := Some u2, Req_Host := TestProxyVariable_host tpv\<rparr>
           in exec_bind (Request_Header_Set req1 RecordingUpstreamURIHeader
                           (oriSchema @ ''://'' @ oriHost)) (\<lambda>req2.
              exec_bind (Request_Header_Set req2 RecordingModeHeader (tpv_Mode tpv)) (\<lambda>req3.
              exec_bind (Request_Header_Set req3 RecordingIdHeader (tpv_RecordingId tpv)) (\<lambda>req4.
              Returns (oriSchema, oriHost, req4))))))"

definition TestProxyVariable_Do ::
  "TestProxyVariable \<Rightarrow> Request \<Rightarrow> (Response option \<times> error option) exec" where
  "TestProxyVariable_Do tpv req =
     exec_bind (TestProxyVariable_Do_rewrite tpv req) (\<lambda>(oriSchema, oriHost, req').
       restore_target oriSchema oriHost (tpv_Client tpv req'))"

text \<open>\<^verbatim>\<open>StartTestProxy\<close> up to the call of the client: the request it builds.\<close>

definition StartTestProxy_TestProxyVariable_request ::
  "Env \<Rightarrow> string \<Rightarrow> TestProxyVariable \<Rightarrow> (error + Request) exec" where
  "StartTestProxy_TestProxyVariable_request env t tpv =
     (let recordingFilePath = getRecordingFilePath env (tpv_RecordingPath tpv) t;
          url = TestProxyVariable_baseURL tpv @ ''/'' @ tpv_Mode tpv @ ''/start''
      in case NewRequest (url_Parse env) ''POST'' url of
           Inl e \<Rightarrow> Returns (Inl e)
         | Inr req \<Rightarrow>
             exec_bind (Request_Header_Set req ''Content-Type'' ''application/json'') (\<lambda>req1.
               (case json_Marshal env [(''x-recording-file'', recordingFilePath)] of
                  Inl e \<Rightarrow> Returns (Inl e)
                | Inr marshalled \<Rightarrow>
                    Returns (Inr (req1\<lparr>Req_Body := Some marshalled,
                                       Req_ContentLength := int (length marshalled)\<rparr>)))))"

text \<open>
  \<^verbatim>\<open>StartTestProxy\<close>: the result is the returned error and the session object behind the
  pointer \<^verbatim>\<open>tpv\<close> after the call.
\<close>

definition StartTestProxy_TestProxyVariable ::
  "Env \<Rightarrow> string \<Rightarrow> TestProxyVariable option \<Rightarrow> (error option \<times> TestProxyVariable option) exec" where
  "StartTestProxy_TestProxyVariable env t tpvp =
     (case tpvp of
        None \<Rightarrow> Returns (Some (Errorf ''TestProxy not empty''), None)
      | Some tpv \<Rightarrow>
          exec_bind (StartTestProxy_TestProxyVariable_request env t tpv) (\<lambda>r.
            (case r of
               Inl e \<Rightarrow> Returns (Some e, Some tpv)
             | Inr req \<Rightarrow>
                 (case client env req of
                    (resp, Some e) \<Rightarrow> Returns (Some e, Some tpv)
                  | (None, None) \<Rightarrow> Panics NilPointerDereference
                  | (Some resp, None) \<Rightarrow>
                      (let recId = Header_Get (Resp_Header resp) RecordingIdHeader
                       in if recId = [] then
                            (case Resp_Body resp of
                               Inl e \<Rightarrow> Returns (Some e, Some tpv)
                             | Inr b \<Rightarrow>
                                 Returns (Some (Errorf
                                   (''recording ID was not returned by the response. Response body: '' @ b)),
                                   Some tpv))
                          else
                            (let tpv' = tpv\<lparr>tpv_RecordingId := recId\<rparr>
                             in case Resp_Body resp of
                                  Inl e \<Rightarrow> Returns (Some e, Some tpv')
                                | Inr body \<Rightarrow>
                                    if length body > 0 then
                                      (case json_Unmarshal env body of
                                         Some e \<Rightarrow> Returns (Some e, Some tpv')
                                       | None \<Rightarrow> Returns (None, Some tpv'))
                                    else Returns (None, Some tpv')))))))"

definition StopTestProxy_TestProxyVariable_request ::
  "Env \<Rightarrow> TestProxyVariable \<Rightarrow> (error + Request) exec" where
  "StopTestProxy_TestProxyVariable_request env tpv =
     (let url = TestProxyVariable_baseURL tpv @ ''/'' @ tpv_Mode tpv @ ''/stop''
      in case NewRequest (url_Parse env) ''POST'' url of
           Inl e \<Rightarrow> Returns (Inl e)
         | Inr req \<Rightarrow>
             exec_bind (Request_Header_Set req RecordingIdHeader (tpv_RecordingId tpv)) (\<lambda>req1.
               Returns (Inr req1)))"

definition StopTestProxy_TestProxyVariable ::
  "Env \<Rightarrow> string \<Rightarrow> TestProxyVariable option \<Rightarrow> error option exec" where
  "StopTestProxy_TestProxyVariable env t tpvp =
     (case tpvp of
        None \<Rightarrow> Returns (Some (Errorf ''TestProxy not empty''))
      | Some tpv \<Rightarrow>
          exec_bind (StopTestProxy_TestProxyVariable_request env tpv) (\<lambda>r.
            (case r of
               Inl e \<Rightarrow> Returns (Some e)
             | Inr req \<Rightarrow>
                 (case client env req of
                    (None, err) \<Rightarrow> Panics NilPointerDereference
                  | (Some resp, err) \<Rightarrow>
                      if Resp_StatusCode resp \<noteq> 200 then
                        (case Resp_Body resp of
                           Inr b \<Rightarrow>
                             Returns (Some (Errorf
                               (''proxy did not stop the recording properly: '' @ b)))
                         | Inl e \<Rightarrow>
                             Returns (Some (Errorf
                               (''proxy did not stop the recording properly: '' @ Error_text e))))
                      else Returns err))))"

section \<open>The variant with \<^verbatim>\<open>TestProxy\<close>: a policy that always uses https\<close>

record TestProxy =
  tp_Host :: string
  tp_Port :: int
  tp_Mode :: string
  tp_RecordingId :: string
  tp_RecordingPath :: string

text \<open>
  A \<^verbatim>\<open>policy.Request\<close> wraps the raw \<^verbatim>\<open>http.Request\<close> (\<^verbatim>\<open>Raw()\<close>) and the policies
  still to run; \<^verbatim>\<open>Next()\<close> hands the same raw request to them.
\<close>

record policy_Request =
  Raw :: Request
  Next :: roundtrip

definition TestProxy_host :: "TestProxy \<Rightarrow> string" where
  "TestProxy_host tpv = tp_Host tpv @ '':'' @ Itoa (tp_Port tpv)"

definition TestProxy_scheme :: "TestProxy \<Rightarrow> string" where
  "TestProxy_scheme tpv = ''https''"

definition TestProxy_baseURL :: "TestProxy \<Rightarrow> string" where
  "TestProxy_baseURL tpv = ''https://'' @ tp_Host tpv @ '':'' @ Itoa (tp_Port tpv)"

definition TestProxy_Do_rewrite ::
  "TestProxy \<Rightarrow> policy_Request \<Rightarrow> (string \<times> string \<times> Request) exec" where
  "TestProxy_Do_rewrite tpv req =
     (case Req_URL (Raw req) of
        None \<Rightarrow> Panics NilPointerDereference
      | Some u \<Rightarrow>
          (let oriSchema = URL_Scheme u;
               oriHost = URL_Host u;
               u1 = u\<lparr>URL_Scheme := TestProxy_scheme tpv\<rparr>;
               u2 = u1\<lparr>URL_Host := TestProxy_host tpv\<rparr>;
               req1 = (Raw req)\<lparr>Req_URL := Some u2, Req_Host := TestProxy_host tpv\<rparr>
           in exec_bind (Request_Header_Set req1 RecordingUpstreamURIHeader
                           (oriSchema @ ''://'' @ oriHost)) (\<lambda>req2.
              exec_bind (Request_Header_Set req2 RecordingModeHeader (tp_Mode tpv)) (\<lambda>req3.
              exec_bind (Request_Header_Set req3 RecordingIdHeader (tp_RecordingId tpv)) (\<lambda>req4.
              Returns (oriSchema, oriHost, req4))))))"

definition TestProxy_Do ::
  "TestProxy \<Rightarrow> policy_Request \<Rightarrow> (Response option \<times> error option) exec" where
  "TestProxy_Do tpv req =
     exec_bind (TestProxy_Do_rewrite tpv req) (\<lambda>(oriSchema, oriHost, req').
       restore_target oriSchema oriHost (Next req req'))"

definition StartTestProxy_TestProxy_request ::
  "Env \<Rightarrow> string \<Rightarrow> TestProxy \<Rightarrow> (error + Request) exec" where
  "StartTestProxy_TestProxy_request env t tpv =
     (let recordingFilePath = getRecordingFilePath env (tp_RecordingPath tpv) t;
          url = TestProxy_baseURL tpv @ ''/'' @ tp_Mode tpv @ ''/start''
      in case NewRequest (url_Parse env) ''POST'' url of
           Inl e \<Rightarrow> Returns (Inl e)
         | Inr req \<Rightarrow>
             exec_bind (Request_Header_Set req ''Content-Type'' ''application/json'') (\<lambda>req1.
               (case json_Marshal env [(''x-recording-file'', recordingFilePath)] of
                  Inl e \<Rightarrow> Returns (Inl e)
                | Inr marshalled \<Rightarrow>
                    Returns (Inr (req1\<lparr>Req_Body := Some marshalled,
                                       Req_ContentLength := int (length marshalled)\<rparr>)))))"

definition StartTestProxy_TestProxy ::
  "Env \<Rightarrow> string \<Rightarrow> TestProxy option \<Rightarrow> (error option \<times> TestProxy option) exec" where
  "StartTestProxy_TestProxy env t tpvp =
     (case tpvp of
        None \<Rightarrow> Returns (Some (Errorf ''TestProxy not empty''), None)
      | Some tpv \<Rightarrow>
          exec_bind (StartTestProxy_TestProxy_request env t tpv) (\<lambda>r.
            (case r of
               Inl e \<Rightarrow> Returns (Some e, Some tpv)
             | Inr req \<Rightarrow>
                 (case client env req of
                    (resp, Some e) \<Rightarrow> Returns (Some e, Some tpv)
                  | (None, None) \<Rightarrow> Panics NilPointerDereference
                  | (Some resp, None) \<Rightarrow>
                      (let recId = Header_Get (Resp_Header resp) RecordingIdHeader
                       in if recId = [] then
                            (case Resp_Body resp of
                               Inl e \<Rightarrow> Returns (Some e, Some tpv)
                             | Inr b \<Rightarrow>
                                 Returns (Some (Errorf
                                   (''recording ID was not returned by the response. Response body: '' @ b)),
                                   Some tpv))
                          else
                            (let tpv' = tpv\<lparr>tp_RecordingId := recId\<rparr>
                             in case Resp_Body resp of
                                  Inl e \<Rightarrow> Returns (Some e, Some tpv')
                                | Inr body \<Rightarrow>
                                    if length body > 0 then
                                      (case json_Unmarshal env body of
                                         Some e \<Rightarrow> Returns (Some e, Some tpv')
                                       | None \<Rightarrow> Returns (None, Some tpv'))
                                    else Returns (None, Some tpv')))))))"

definition StopTestProxy_TestProxy_request :: "Env \<Rightarrow> TestProxy \<Rightarrow> (error + Request) exec" where
  "StopTestProxy_TestProxy_request env tpv =
     (let url = TestProxy_baseURL tpv @ ''/'' @ tp_Mode tpv @ ''/stop''
      in case NewRequest (url_Parse env) ''POST'' url of
           Inl e \<Rightarrow> Returns (Inl e)
         | Inr req \<Rightarrow>
             exec_bind (Request_Header_Set req RecordingIdHeader (tp_RecordingId tpv)) (\<lambda>req1.
               Returns (Inr req1)))"

definition StopTestProxy_TestProxy ::
  "Env \<Rightarrow> string \<Rightarrow> TestProxy option \<Rightarrow> error option exec" where
  "StopTestProxy_TestProxy env t tpvp =
     (case tpvp of
        None \<Rightarrow> Returns (Some (Errorf ''TestProxy not empty''))
      | Some tpv \<Rightarrow>
          exec_bind (StopTestProxy_TestProxy_request env tpv) (\<lambda>r.
            (case r of
               Inl e \<Rightarrow> Returns (Some e)
             | Inr req \<Rightarrow>
                 (case client env req of
                    (None, err) \<Rightarrow> Panics NilPointerDereference
                  | (Some resp, err) \<Rightarrow>
                      if Resp_StatusCode resp \<noteq> 200 then
                        (case Resp_Body resp of
                           Inr b \<Rightarrow>
                             Returns (Some (Errorf
                               (''proxy did not stop the recording properly: '' @ b)))
                         | Inl e \<Rightarrow>
                             Returns (Some (Errorf
                               (''proxy did not stop the recording properly: '' @ Error_text e))))
                      else Returns err))))"

section \<open>The variant of \<^verbatim>\<open>testproxytransport.go\<close>\<close>

record TestProxyTransport =
  tpt_transport :: roundtrip
  tpt_host :: string
  tpt_port :: int
  tpt_mode :: string
  tpt_recordingId :: string

definition NewTestProxyTransport ::
  "roundtrip \<Rightarrow> string \<Rightarrow> int \<Rightarrow> string \<Rightarrow> string \<Rightarrow> TestProxyTransport" where
  "NewTestProxyTransport transport host port recordingId mode =
     \<lparr>tpt_transport = transport, tpt_host = host, tpt_port = port, tpt_mode = mode,
      tpt_recordingId = recordingId\<rparr>"

text \<open>\<^verbatim>\<open>Do\<close> up to the call of the inner transport: the request handed to it.\<close>

definition TestProxyTransport_Do_rewrite :: "TestProxyTransport \<Rightarrow> Request \<Rightarrow> Request exec" where
  "TestProxyTransport_Do_rewrite tpt req =
     exec_bind (Request_Header_Set req ''x-recording-id'' (tpt_recordingId tpt)) (\<lambda>req1.
     exec_bind (Request_Header_Set req1 ''x-recording-mode'' (tpt_mode tpt)) (\<lambda>req2.
       (case Req_URL req2 of
          None \<Rightarrow> Panics NilPointerDereference
        | Some u \<Rightarrow>
            (let scheme = URL_Scheme u;
                 host = URL_Host u;
                 baseUri = scheme @ ''://'' @ host
             in exec_bind (Request_Header_Set req2 ''x-recording-upstream-base-uri'' baseUri) (\<lambda>req3.
                  Returns (req3\<lparr>Req_URL :=
                    Some (u\<lparr>URL_Host := tpt_host tpt @ '':'' @ Itoa (tpt_port tpt)\<rparr>)\<rparr>))))))"

definition TestProxyTransport_Do ::
  "TestProxyTransport \<Rightarrow> Request \<Rightarrow> (Response option \<times> error option) exec" where
  "TestProxyTransport_Do tpt req =
     exec_bind (TestProxyTransport_Do_rewrite tpt req) (\<lambda>req'.
       Returns (tpt_transport tpt req'))"

record TestProxyVariables =
  tpvs_Host :: string
  tpvs_Port :: int
  tpvs_Mode :: string
  tpvs_RecordingId :: string
  tpvs_CurrentRecordingPath :: string
  tpvs_HttpClient :: roundtrip

definition StartTestProxy_TestProxyVariables_request ::
  "Env \<Rightarrow> TestProxyVariables \<Rightarrow> (error + Request) exec" where
  "StartTestProxy_TestProxyVariables_request env tpv =
     (let url = ''https://'' @ tpvs_Host tpv @ '':'' @ Itoa (tpvs_Port tpv) @ ''/''
                @ tpvs_Mode tpv @ ''/start''
      in case NewRequest (url_Parse env) ''POST'' url of
           Inl e \<Rightarrow> Returns (Inl e)
         | Inr req \<Rightarrow>
             exec_bind (Request_Header_Set req ''Content-Type'' ''application/json'') (\<lambda>req1.
               (case json_Marshal env [(''x-recording-file'', tpvs_CurrentRecordingPath tpv)] of
                  Inl e \<Rightarrow> Returns (Inl e)
                | Inr marshalled \<Rightarrow>
                    Returns (Inr (req1\<lparr>Req_Body := Some marshalled,
                                       Req_ContentLength := int (length marshalled)\<rparr>)))))"

definition StartTestProxy_TestProxyVariables ::
  "Env \<Rightarrow> TestProxyVariables \<Rightarrow> (error option \<times> TestProxyVariables) exec" where
  "StartTestProxy_TestProxyVariables env tpv =
     exec_bind (StartTestProxy_TestProxyVariables_request env tpv) (\<lambda>r.
       (case r of
          Inl e \<Rightarrow> Returns (Some e, tpv)
        | Inr req \<Rightarrow>
            (case tpvs_HttpClient tpv req of
               (resp, Some e) \<Rightarrow> Returns (Some e, tpv)
             | (None, None) \<Rightarrow> Panics NilPointerDereference
             | (Some resp, None) \<Rightarrow>
                 Returns (None,
                   tpv\<lparr>tpvs_RecordingId := Header_Get (Resp_Header resp) ''x-recording-id''\<rparr>))))"

definition StopTestProxy_TestProxyVariables_request ::
  "Env \<Rightarrow> TestProxyVariables \<Rightarrow> (error + Request) exec" where
  "StopTestProxy_TestProxyVariables_request env tpv =
     (let url = ''https://'' @ tpvs_Host tpv @ '':'' @ Itoa (tpvs_Port tpv) @ ''/''
                @ tpvs_Mode tpv @ ''/stop''
      in case NewRequest (url_Parse env) ''POST'' url of
           Inl e \<Rightarrow> Returns (Inl e)
         | Inr req \<Rightarrow>
             exec_bind (Request_Header_Set req ''x-recording-id'' (tpvs_RecordingId tpv)) (\<lambda>req1.
             exec_bind (Request_Header_Set req1 ''x-recording-save'' ''true'') (\<lambda>req2.
               Returns (Inr req2))))"

definition StopTestProxy_TestProxyVariables ::
  "Env \<Rightarrow> TestProxyVariables \<Rightarrow> error option exec" where
  "StopTestProxy_TestProxyVariables env tpv =
     exec_bind (StopTestProxy_TestProxyVariables_request env tpv) (\<lambda>r.
       (case r of
          Inl e \<Rightarrow> Returns (Some e)
        | Inr req \<Rightarrow> Returns (snd (tpvs_HttpClient tpv req))))"

section \<open>Observations and example values\<close>

text \<open>
  The target seen on the response a \<^verbatim>\<open>Do\<close> returned, when it returned one.
\<close>

definition Result_target :: "(Response option \<times> error option) exec \<Rightarrow> (string \<times> string) option" where
  "Result_target r =
     (case r of
        Panics p \<Rightarrow> None
      | Returns (None, err) \<Rightarrow> None
      | Returns (Some resp, err) \<Rightarrow> Response_target resp)"

text \<open>
  A GET of \<^verbatim>\<open>https://service.example.com/foo?a=1\<close> with one header, a send primitive
  that answers every request with status 200 and refers back to the request it was given
  (as \<^verbatim>\<open>http.Transport\<close> does), and a session on \<^verbatim>\<open>localhost:5001\<close> in record mode
  with recording id \<^verbatim>\<open>abc123\<close>, once for each variant.
\<close>

definition example_URL :: URL where
  "example_URL =
     \<lparr>URL_Scheme = ''https'', URL_Host = ''service.example.com'', URL_Path = ''/foo'',
      URL_RawQuery = ''a=1'', URL_Fragment = []\<rparr>"

definition example_Header :: Header where
  "example_Header = [''Accept'' \<mapsto> [''application/json'']]"

definition example_Request :: Request where
  "example_Request =
     \<lparr>Req_Method = ''GET'', Req_URL = Some example_URL, Req_Header = Some example_Header,
      Req_Body = None, Req_ContentLength = 0, Req_Host = ''service.example.com''\<rparr>"

definition example_transport :: roundtrip where
  "example_transport req =
     (Some \<lparr>Resp_StatusCode = 200, Resp_Header = Map.empty, Resp_Body = Inr ''ok'',
            Resp_Request = Some req\<rparr>, None)"

definition example_TestProxyVariable :: TestProxyVariable where
  "example_TestProxyVariable =
     \<lparr>tpv_Client = example_transport, tpv_Host = ''localhost'', tpv_Port = 5001,
      tpv_Mode = ''record'', tpv_RecordingId = ''abc123'', tpv_RecordingPath = ''/repo''\<rparr>"

definition example_TestProxy :: TestProxy where
  "example_TestProxy =
     \<lparr>tp_Host = ''localhost'', tp_Port = 5001, tp_Mode = ''record'',
      tp_RecordingId = ''abc123'', tp_RecordingPath = ''/repo''\<rparr>"

definition example_policy_Request :: policy_Request where
  "example_policy_Request = \<lparr>Raw = example_Request, Next = example_transport\<rparr>"

definition example_TestProxyTransport :: TestProxyTransport where
  "example_TestProxyTransport =
     NewTestProxyTransport example_transport ''localhost'' 5001 ''abc123'' ''record''"

text \<open>The same request over plain http.\<close>

definition example_http_Request :: Request where
  "example_http_Request =
     example_Request\<lparr>Req_URL := Some (example_URL\<lparr>URL_Scheme := ''http''\<rparr>)\<rparr>"

text \<open>
  The surroundings for \<^verbatim>\<open>StartTestProxy\<close> and \<^verbatim>\<open>StopTestProxy\<close>: a URL parser that knows
  the two URLs of the example session, a path join with \<^verbatim>\<open>/\<close>, a JSON encoder for a map
  with one entry, a JSON decoder that accepts \<^verbatim>\<open>{}\<close> only, and clients that answer every
  request with one given response, or fail with one given error.
\<close>

definition example_url_Parse :: "string \<Rightarrow> error + URL" where
  "example_url_Parse s =
     (if s = ''https://localhost:5001/record/start'' then
        Inr \<lparr>URL_Scheme = ''https'', URL_Host = ''localhost:5001'', URL_Path = ''/record/start'',
             URL_RawQuery = [], URL_Fragment = []\<rparr>
      else if s = ''https://localhost:5001/record/stop'' then
        Inr \<lparr>URL_Scheme = ''https'', URL_Host = ''localhost:5001'', URL_Path = ''/record/stop'',
             URL_RawQuery = [], URL_Fragment = []\<rparr>
      else Inl (External ''parse error''))"

definition example_path_Join :: "string list \<Rightarrow> string" where
  "example_path_Join elems =
     (case elems of [] \<Rightarrow> [] | e # es \<Rightarrow> foldl (\<lambda>p q. p @ ''/'' @ q) e es)"

definition example_json_Marshal :: "(string \<times> string) list \<Rightarrow> error + string" where
  "example_json_Marshal m =
     (case m of
        [(k, v)] \<Rightarrow> Inr (''{'' @ [CHR 0x22] @ k @ [CHR 0x22] @ '':'' @ [CHR 0x22] @ v
                        @ [CHR 0x22] @ ''}'')
      | _ \<Rightarrow> Inl (External ''unsupported value''))"

definition example_json_Unmarshal :: "string \<Rightarrow> error option" where
  "example_json_Unmarshal b =
     (if b = ''{}'' then None else Some (External ''invalid character''))"

definition example_Response :: "int \<Rightarrow> Header \<Rightarrow> string \<Rightarrow> Response" where
  "example_Response status header body =
     \<lparr>Resp_StatusCode = status, Resp_Header = header, Resp_Body = Inr body,
      Resp_Request = None\<rparr>"

definition answering :: "Response \<Rightarrow> roundtrip" where
  "answering resp req = (Some resp, None)"

definition failing :: "error \<Rightarrow> roundtrip" where
  "failing e req = (None, Some e)"

definition example_Env :: "roundtrip \<Rightarrow> Env" where
  "example_Env c =
     \<lparr>url_Parse = example_url_Parse, path_Join = example_path_Join,
      json_Marshal = example_json_Marshal, json_Unmarshal = example_json_Unmarshal,
      client = c\<rparr>"

definition example_TestProxyVariables :: "roundtrip \<Rightarrow> TestProxyVariables" where
  "example_TestProxyVariables c =
     \<lparr>tpvs_Host = ''localhost'', tpvs_Port = 5001, tpvs_Mode = ''record'',
      tpvs_RecordingId = [], tpvs_CurrentRecordingPath = ''/repo/recordings/TestCosmosDBTables.json'',
      tpvs_HttpClient = c\<rparr>"

text \<open>The sessions before \<^verbatim>\<open>StartTestProxy\<close>: no recording id yet.\<close>

definition example_new_TestProxy :: TestProxy where
  "example_new_TestProxy = example_TestProxy\<lparr>tp_RecordingId := []\<rparr>"

definition example_new_TestProxyVariable :: TestProxyVariable where
  "example_new_TestProxyVariable = example_TestProxyVariable\<lparr>tpv_RecordingId := []\<rparr>"

definition example_id_Header :: Header where
  "example_id_Header = [''X-Recording-Id'' \<mapsto> [''abc123'']]"

text \<open>
  The value of a header on the request \<^verbatim>\<open>StartTestProxy\<close> or \<^verbatim>\<open>StopTestProxy\<close> built, when
  it built one.
\<close>

definition Built_Header_Get :: "(error + Request) exec \<Rightarrow> string \<Rightarrow> string option" where
  "Built_Header_Get r key =
     (case r of
        Panics p \<Rightarrow> None
      | Returns (Inl e) \<Rightarrow> None
      | Returns (Inr req) \<Rightarrow> Some (Request_Header_Get req key))"

section \<open>Facts about the library model\<close>

lemma canon_RecordingIdHeader: "CanonicalMIMEHeaderKey ''x-recording-id'' = ''X-Recording-Id''"
  by code_simp

lemma canon_RecordingModeHeader:
  "CanonicalMIMEHeaderKey ''x-recording-mode'' = ''X-Recording-Mode''"
  by code_simp

lemma canon_RecordingUpstreamURIHeader:
  "CanonicalMIMEHeaderKey ''x-recording-upstream-base-uri'' = ''X-Recording-Upstream-Base-Uri''"
  by code_simp

lemma canon_save: "CanonicalMIMEHeaderKey ''x-recording-save'' = ''X-Recording-Save''"
  by code_simp

lemma canon_Content_Type: "CanonicalMIMEHeaderKey ''Content-Type'' = ''Content-Type''"
  by code_simp

lemma canon_Accept: "CanonicalMIMEHeaderKey ''Accept'' = ''Accept''"
  by code_simp

lemmas canon_keys = canon_RecordingIdHeader canon_RecordingModeHeader
  canon_RecordingUpstreamURIHeader canon_save canon_Content_Type

lemma Header_Get_Set_same: "Header_Get (Header_Set h key v) key = v"
  by (simp add: Header_Get_def Header_Set_def)

lemma Header_Get_Set_other:
  "CanonicalMIMEHeaderKey key' \<noteq> CanonicalMIMEHeaderKey key \<Longrightarrow>
   Header_Get (Header_Set h key v) key' = Header_Get h key'"
  by (simp add: Header_Get_def Header_Set_def)

lemma Request_Header_Set_Some:
  "Req_Header req = Some h \<Longrightarrow>
   Request_Header_Set req key v = Returns (req\<lparr>Req_Header := Some (Header_Set h key v)\<rparr>)"
  by (simp add: Request_Header_Set_def)

lemma Itoa_5001: "Itoa 5001 = ''5001''"
  by (simp add: Itoa_def nat_decimal.simps digit_char_def)

section \<open>What each \<^verbatim>\<open>Do\<close> hands to the send primitive, and what it returns\<close>

lemma TestProxyVariable_Do_rewrite_Returns:
  assumes "Req_URL req = Some u" and "Req_Header req = Some h"
  shows "TestProxyVariable_Do_rewrite tpv req =
    Returns (URL_Scheme u, URL_Host u,
      req\<lparr>Req_URL := Some (u\<lparr>URL_Scheme := TestProxyVariable_scheme tpv,
                               URL_Host := TestProxyVariable_host tpv\<rparr>),
          Req_Host := TestProxyVariable_host tpv,
          Req_Header := Some (Header_Set (Header_Set (Header_Set h
            RecordingUpstreamURIHeader (URL_Scheme u @ ''://'' @ URL_Host u))
            RecordingModeHeader (tpv_Mode tpv))
            RecordingIdHeader (tpv_RecordingId tpv))\<rparr>)"
  using assms
  by (simp add: TestProxyVariable_Do_rewrite_def exec_bind_def Request_Header_Set_def Let_def)

lemma TestProxy_Do_rewrite_Returns:
  assumes "Req_URL (Raw req) = Some u" and "Req_Header (Raw req) = Some h"
  shows "TestProxy_Do_rewrite tpv req =
    Returns (URL_Scheme u, URL_Host u,
      (Raw req)\<lparr>Req_URL := Some (u\<lparr>URL_Scheme := TestProxy_scheme tpv,
                               URL_Host := TestProxy_host tpv\<rparr>),
          Req_Host := TestProxy_host tpv,
          Req_Header := Some (Header_Set (Header_Set (Header_Set h
            RecordingUpstreamURIHeader (URL_Scheme u @ ''://'' @ URL_Host u))
            RecordingModeHeader (tp_Mode tpv))
            RecordingIdHeader (tp_RecordingId tpv))\<rparr>)"
  using assms
  by (simp add: TestProxy_Do_rewrite_def exec_bind_def Request_Header_Set_def Let_def)

lemma TestProxyTransport_Do_rewrite_Returns:
  assumes "Req_URL req = Some u" and "Req_Header req = Some h"
  shows "TestProxyTransport_Do_rewrite tpt req =
    Returns (req\<lparr>Req_Header := Some (Header_Set (Header_Set (Header_Set h
            ''x-recording-id'' (tpt_recordingId tpt))
            ''x-recording-mode'' (tpt_mode tpt))
            ''x-recording-upstream-base-uri'' (URL_Scheme u @ ''://'' @ URL_Host u)),
          Req_URL := Some (u\<lparr>URL_Host := tpt_host tpt @ '':'' @ Itoa (tpt_port tpt)\<rparr>)\<rparr>)"
  using assms
  by (simp add: TestProxyTransport_Do_rewrite_def exec_bind_def Request_Header_Set_def Let_def)

text \<open>
  Without a URL or without a header map the statements before the send panic: nothing is
  sent.
\<close>

lemma Do_rewrite_Panics:
  assumes "Req_URL req = None \<or> Req_Header req = None"
  shows "\<exists>p. TestProxyVariable_Do_rewrite tpv req = Panics p"
    and "\<exists>p. TestProxy_Do_rewrite tp \<lparr>Raw = req, Next = nxt\<rparr> = Panics p"
    and "\<exists>p. TestProxyTransport_Do_rewrite tpt req = Panics p"
    and "\<exists>p. TestProxyVariable_Do tpv req = Panics p"
    and "\<exists>p. TestProxy_Do tp \<lparr>Raw = req, Next = nxt\<rparr> = Panics p"
    and "\<exists>p. TestProxyTransport_Do tpt req = Panics p"
  using assms
  by (auto simp: TestProxyVariable_Do_rewrite_def TestProxy_Do_rewrite_def
      TestProxyTransport_Do_rewrite_def TestProxyVariable_Do_def TestProxy_Do_def
      TestProxyTransport_Do_def exec_bind_def Request_Header_Set_def Let_def
      split: option.splits)

lemma three_headers_Get:
  "Header_Get (Header_Set (Header_Set (Header_Set h
      RecordingUpstreamURIHeader a) RecordingModeHeader b) RecordingIdHeader c)
      RecordingUpstreamURIHeader = a"
  "Header_Get (Header_Set (Header_Set (Header_Set h
      RecordingUpstreamURIHeader a) RecordingModeHeader b) RecordingIdHeader c)
      RecordingModeHeader = b"
  "Header_Get (Header_Set (Header_Set (Header_Set h
      RecordingUpstreamURIHeader a) RecordingModeHeader b) RecordingIdHeader c)
      RecordingIdHeader = c"
  by (simp_all add: Header_Get_def Header_Set_def RecordingUpstreamURIHeader_def
      RecordingModeHeader_def RecordingIdHeader_def canon_keys)

lemma three_headers_Get_literal:
  "Header_Get (Header_Set (Header_Set (Header_Set h
      ''x-recording-id'' c) ''x-recording-mode'' b) ''x-recording-upstream-base-uri'' a)
      ''x-recording-upstream-base-uri'' = a"
  "Header_Get (Header_Set (Header_Set (Header_Set h
      ''x-recording-id'' c) ''x-recording-mode'' b) ''x-recording-upstream-base-uri'' a)
      ''x-recording-mode'' = b"
  "Header_Get (Header_Set (Header_Set (Header_Set h
      ''x-recording-id'' c) ''x-recording-mode'' b) ''x-recording-upstream-base-uri'' a)
      ''x-recording-id'' = c"
  by (simp_all add: Header_Get_def Header_Set_def canon_keys)

lemma restore_target_Returns:
  "restore_target s hst r = Returns (Some resp, err) \<Longrightarrow> Response_target resp = Some (s, hst)"
  by (auto simp: restore_target_def Response_target_def Request_target_def
      split: prod.splits option.splits)

lemma restore_target_cases:
  "(case r of
      (None, err) \<Rightarrow> restore_target s hst r = Returns (None, err)
    | (Some r0, err) \<Rightarrow>
        (case Response_target r0 of
           None \<Rightarrow> restore_target s hst r = Panics NilPointerDereference
         | Some x \<Rightarrow>
             (\<exists>resp. restore_target s hst r = Returns (Some resp, err) \<and>
                     Response_target resp = Some (s, hst) \<and>
                     Resp_StatusCode resp = Resp_StatusCode r0 \<and>
                     Resp_Header resp = Resp_Header r0 \<and>
                     Resp_Body resp = Resp_Body r0)))"
  by (auto simp: restore_target_def Response_target_def Request_target_def
      split: prod.splits option.splits)

lemma TestProxyVariable_Do_eq:
  assumes "TestProxyVariable_Do_rewrite tpv req = Returns (s, hst, req')"
  shows "TestProxyVariable_Do tpv req = restore_target s hst (tpv_Client tpv req')"
  using assms by (simp add: TestProxyVariable_Do_def exec_bind_def)

lemma TestProxyVariable_Do_cases:
  assumes "TestProxyVariable_Do_rewrite tpv req = Returns (s, hst, req')"
  shows "(case tpv_Client tpv req' of
      (None, err) \<Rightarrow> TestProxyVariable_Do tpv req = Returns (None, err)
    | (Some r0, err) \<Rightarrow>
        (case Response_target r0 of
           None \<Rightarrow> TestProxyVariable_Do tpv req = Panics NilPointerDereference
         | Some x \<Rightarrow>
             (\<exists>resp. TestProxyVariable_Do tpv req = Returns (Some resp, err) \<and>
                     Response_target resp = Some (s, hst) \<and>
                     Resp_StatusCode resp = Resp_StatusCode r0 \<and>
                     Resp_Header resp = Resp_Header r0 \<and>
                     Resp_Body resp = Resp_Body r0)))"
  unfolding TestProxyVariable_Do_eq [OF assms] by (rule restore_target_cases)

lemma TestProxy_Do_cases:
  assumes "TestProxy_Do_rewrite tpv req = Returns (s, hst, req')"
  shows "(case Next req req' of
      (None, err) \<Rightarrow> TestProxy_Do tpv req = Returns (None, err)
    | (Some r0, err) \<Rightarrow>
        (case Response_target r0 of
           None \<Rightarrow> TestProxy_Do tpv req = Panics NilPointerDereference
         | Some x \<Rightarrow>
             (\<exists>resp. TestProxy_Do tpv req = Returns (Some resp, err) \<and>
                     Response_target resp = Some (s, hst) \<and>
                     Resp_StatusCode resp = Resp_StatusCode r0 \<and>
                     Resp_Header resp = Resp_Header r0 \<and>
                     Resp_Body resp = Resp_Body r0)))"
  unfolding TestProxy_Do_def assms exec_bind_def exec.case prod.case
  by (rule restore_target_cases)

lemma TestProxy_Do_eq:
  assumes "TestProxy_Do_rewrite tpv req = Returns (s, hst, req')"
  shows "TestProxy_Do tpv req = restore_target s hst (Next req req')"
  using assms by (simp add: TestProxy_Do_def exec_bind_def)

lemma TestProxyTransport_Do_eq:
  assumes "TestProxyTransport_Do_rewrite tpt req = Returns req'"
  shows "TestProxyTransport_Do tpt req = Returns (tpt_transport tpt req')"
  using assms by (simp add: TestProxyTransport_Do_def exec_bind_def)

lemmas example_defs = example_URL_def example_Header_def example_Request_def
  example_transport_def example_TestProxyVariable_def example_TestProxy_def
  example_policy_Request_def example_TestProxyTransport_def NewTestProxyTransport_def

lemmas header_name_defs = RecordingIdHeader_def RecordingModeHeader_def
  RecordingUpstreamURIHeader_def

lemmas Do_defs = TestProxyVariable_Do_def TestProxyVariable_Do_rewrite_def
  TestProxy_Do_def TestProxy_Do_rewrite_def TestProxyTransport_Do_def
  TestProxyTransport_Do_rewrite_def exec_bind_def Request_Header_Set_def restore_target_def
  Let_def TestProxyVariable_scheme_def TestProxyVariable_host_def TestProxy_scheme_def
  TestProxy_host_def

section \<open>The requests \<^verbatim>\<open>StartTestProxy\<close> and \<^verbatim>\<open>StopTestProxy\<close> build, and their results\<close>

lemma NewRequest_Inr:
  "parse url = Inr u \<Longrightarrow>
   NewRequest parse method url =
     Inr \<lparr>Req_Method = method, Req_URL = Some u, Req_Header = Some Map.empty,
          Req_Body = None, Req_ContentLength = 0, Req_Host = URL_Host u\<rparr>"
  by (simp add: NewRequest_def)

lemma NewRequest_Inl: "parse url = Inl e \<Longrightarrow> NewRequest parse method url = Inl e"
  by (simp add: NewRequest_def)

lemmas request_defs = StartTestProxy_TestProxyVariable_request_def
  StopTestProxy_TestProxyVariable_request_def StartTestProxy_TestProxy_request_def
  StopTestProxy_TestProxy_request_def StartTestProxy_TestProxyVariables_request_def
  StopTestProxy_TestProxyVariables_request_def

lemma StopTestProxy_TestProxy_request_Inr:
  assumes "url_Parse env (''https://'' @ tp_Host tp @ '':'' @ Itoa (tp_Port tp) @ ''/''
              @ tp_Mode tp @ ''/stop'') = Inr u"
  shows "StopTestProxy_TestProxy_request env tp =
    Returns (Inr \<lparr>Req_Method = ''POST'', Req_URL = Some u,
      Req_Header = Some [''X-Recording-Id'' \<mapsto> [tp_RecordingId tp]],
      Req_Body = None, Req_ContentLength = 0, Req_Host = URL_Host u\<rparr>)"
  using assms
  by (simp add: StopTestProxy_TestProxy_request_def TestProxy_baseURL_def NewRequest_def
      exec_bind_def Request_Header_Set_def Header_Set_def RecordingIdHeader_def canon_keys)

lemma StopTestProxy_TestProxyVariable_request_Inr:
  assumes "url_Parse env (TestProxyVariable_scheme tpv @ ''://'' @ tpv_Host tpv @ '':''
              @ Itoa (tpv_Port tpv) @ ''/'' @ tpv_Mode tpv @ ''/stop'') = Inr u"
  shows "StopTestProxy_TestProxyVariable_request env tpv =
    Returns (Inr \<lparr>Req_Method = ''POST'', Req_URL = Some u,
      Req_Header = Some [''X-Recording-Id'' \<mapsto> [tpv_RecordingId tpv]],
      Req_Body = None, Req_ContentLength = 0, Req_Host = URL_Host u\<rparr>)"
  using assms
  by (simp add: StopTestProxy_TestProxyVariable_request_def TestProxyVariable_baseURL_def
      NewRequest_def exec_bind_def Request_Header_Set_def Header_Set_def RecordingIdHeader_def
      canon_keys)

lemma StopTestProxy_TestProxyVariables_request_Inr:
  assumes "url_Parse env (''https://'' @ tpvs_Host tpv @ '':'' @ Itoa (tpvs_Port tpv) @ ''/''
              @ tpvs_Mode tpv @ ''/stop'') = Inr u"
  shows "StopTestProxy_TestProxyVariables_request env tpv =
    Returns (Inr \<lparr>Req_Method = ''POST'', Req_URL = Some u,
      Req_Header = Some [''X-Recording-Id'' \<mapsto> [tpvs_RecordingId tpv],
                         ''X-Recording-Save'' \<mapsto> [''true'']],
      Req_Body = None, Req_ContentLength = 0, Req_Host = URL_Host u\<rparr>)"
  using assms
  by (simp add: StopTestProxy_TestProxyVariables_request_def
      NewRequest_def exec_bind_def Request_Header_Set_def Header_Set_def canon_keys)

lemma StartTestProxy_TestProxy_request_Inr:
  assumes "url_Parse env (''https://'' @ tp_Host tp @ '':'' @ Itoa (tp_Port tp) @ ''/''
              @ tp_Mode tp @ ''/start'') = Inr u"
    and "json_Marshal env [(''x-recording-file'',
            path_Join env [tp_RecordingPath tp, ''recordings'', t @ ''.json''])] = Inr m"
  shows "StartTestProxy_TestProxy_request env t tp =
    Returns (Inr \<lparr>Req_Method = ''POST'', Req_URL = Some u,
      Req_Header = Some [''Content-Type'' \<mapsto> [''application/json'']],
      Req_Body = Some m, Req_ContentLength = int (length m), Req_Host = URL_Host u\<rparr>)"
  using assms
  by (simp add: StartTestProxy_TestProxy_request_def TestProxy_baseURL_def NewRequest_def
      exec_bind_def Request_Header_Set_def Header_Set_def getRecordingFilePath_def canon_keys)

lemma StartTestProxy_TestProxyVariable_request_Inr:
  assumes "url_Parse env (TestProxyVariable_scheme tpv @ ''://'' @ tpv_Host tpv @ '':''
              @ Itoa (tpv_Port tpv) @ ''/'' @ tpv_Mode tpv @ ''/start'') = Inr u"
    and "json_Marshal env [(''x-recording-file'',
            path_Join env [tpv_RecordingPath tpv, ''recordings'', t @ ''.json''])] = Inr m"
  shows "StartTestProxy_TestProxyVariable_request env t tpv =
    Returns (Inr \<lparr>Req_Method = ''POST'', Req_URL = Some u,
      Req_Header = Some [''Content-Type'' \<mapsto> [''application/json'']],
      Req_Body = Some m, Req_ContentLength = int (length m), Req_Host = URL_Host u\<rparr>)"
  using assms
  by (simp add: StartTestProxy_TestProxyVariable_request_def TestProxyVariable_baseURL_def
      NewRequest_def exec_bind_def Request_Header_Set_def Header_Set_def
      getRecordingFilePath_def canon_keys)

lemma StartTestProxy_TestProxyVariables_request_Inr:
  assumes "url_Parse env (''https://'' @ tpvs_Host tpv @ '':'' @ Itoa (tpvs_Port tpv) @ ''/''
              @ tpvs_Mode tpv @ ''/start'') = Inr u"
    and "json_Marshal env [(''x-recording-file'', tpvs_CurrentRecordingPath tpv)] = Inr m"
  shows "StartTestProxy_TestProxyVariables_request env tpv =
    Returns (Inr \<lparr>Req_Method = ''POST'', Req_URL = Some u,
      Req_Header = Some [''Content-Type'' \<mapsto> [''application/json'']],
      Req_Body = Some m, Req_ContentLength = int (length m), Req_Host = URL_Host u\<rparr>)"
  using assms
  by (simp add: StartTestProxy_TestProxyVariables_request_def NewRequest_def
      exec_bind_def Request_Header_Set_def Header_Set_def canon_keys)

lemma request_never_panics:
  "\<exists>r. StartTestProxy_TestProxyVariable_request env t tpv = Returns r"
  "\<exists>r. StopTestProxy_TestProxyVariable_request env tpv = Returns r"
  "\<exists>r. StartTestProxy_TestProxy_request env t tp = Returns r"
  "\<exists>r. StopTestProxy_TestProxy_request env tp = Returns r"
  "\<exists>r. StartTestProxy_TestProxyVariables_request env tpvs = Returns r"
  "\<exists>r. StopTestProxy_TestProxyVariables_request env tpvs = Returns r"
  by (simp_all add: request_defs NewRequest_def exec_bind_def Request_Header_Set_def Let_def
      split: sum.splits)

lemma StartTestProxy_TestProxy_answered:
  assumes "StartTestProxy_TestProxy_request env t tp = Returns (Inr req)"
    and "client env req = (Some resp, None)"
  shows "StartTestProxy_TestProxy env t (Some tp) =
    (if Header_Get (Resp_Header resp) ''x-recording-id'' = [] then
       Returns (Some (case Resp_Body resp of
            Inl e \<Rightarrow> e
          | Inr b \<Rightarrow> Errorf (''recording ID was not returned by the response. Response body: '' @ b)),
          Some tp)
     else
       Returns (case Resp_Body resp of
            Inl e \<Rightarrow> Some e
          | Inr body \<Rightarrow> if body = [] then None else json_Unmarshal env body,
          Some (tp\<lparr>tp_RecordingId := Header_Get (Resp_Header resp) ''x-recording-id''\<rparr>)))"
  using assms
  by (simp add: StartTestProxy_TestProxy_def exec_bind_def RecordingIdHeader_def Let_def
      split: sum.splits option.splits)

lemma StartTestProxy_TestProxyVariable_answered:
  assumes "StartTestProxy_TestProxyVariable_request env t tpv = Returns (Inr req)"
    and "client env req = (Some resp, None)"
  shows "StartTestProxy_TestProxyVariable env t (Some tpv) =
    (if Header_Get (Resp_Header resp) ''x-recording-id'' = [] then
       Returns (Some (case Resp_Body resp of
            Inl e \<Rightarrow> e
          | Inr b \<Rightarrow> Errorf (''recording ID was not returned by the response. Response body: '' @ b)),
          Some tpv)
     else
       Returns (case Resp_Body resp of
            Inl e \<Rightarrow> Some e
          | Inr body \<Rightarrow> if body = [] then None else json_Unmarshal env body,
          Some (tpv\<lparr>tpv_RecordingId := Header_Get (Resp_Header resp) ''x-recording-id''\<rparr>)))"
  using assms
  by (simp add: StartTestProxy_TestProxyVariable_def exec_bind_def RecordingIdHeader_def Let_def
      split: sum.splits option.splits)

lemma StartTestProxy_TestProxyVariables_answered:
  assumes "StartTestProxy_TestProxyVariables_request env tpvs = Returns (Inr req)"
    and "tpvs_HttpClient tpvs req = (Some resp, None)"
  shows "StartTestProxy_TestProxyVariables env tpvs =
    Returns (None, tpvs\<lparr>tpvs_RecordingId := Header_Get (Resp_Header resp) ''x-recording-id''\<rparr>)"
  using assms
  by (simp add: StartTestProxy_TestProxyVariables_def exec_bind_def)

lemma StartTestProxy_TestProxy_outcome:
  assumes "StartTestProxy_TestProxy env t (Some tp) = Returns (r, tpo)"
  shows "(r \<noteq> None \<and> tpo = Some tp) \<or>
     (\<exists>req resp.
        StartTestProxy_TestProxy_request env t tp = Returns (Inr req) \<and>
        client env req = (Some resp, None) \<and>
        Header_Get (Resp_Header resp) ''x-recording-id'' \<noteq> [] \<and>
        tpo = Some (tp\<lparr>tp_RecordingId := Header_Get (Resp_Header resp) ''x-recording-id''\<rparr>) \<and>
        r = (case Resp_Body resp of
               Inl e \<Rightarrow> Some e
             | Inr body \<Rightarrow> if body = [] then None else json_Unmarshal env body))"
proof -
  obtain rq where rq: "StartTestProxy_TestProxy_request env t tp = Returns rq"
    using request_never_panics(3) by blast
  show ?thesis
  proof (cases rq)
    case (Inl e)
    then show ?thesis
      using assms rq by (auto simp: StartTestProxy_TestProxy_def exec_bind_def split: option.splits)
  next
    case (Inr req)
    obtain ro eo where c: "client env req = (ro, eo)"
      by (cases "client env req")
    show ?thesis
    proof (cases eo)
      case (Some e)
      then show ?thesis
        using assms rq Inr c by (auto simp: StartTestProxy_TestProxy_def exec_bind_def split: option.splits)
    next
      case None
      show ?thesis
      proof (cases ro)
        case None
        then show ?thesis
          using assms rq Inr c \<open>eo = None\<close>
          by (auto simp: StartTestProxy_TestProxy_def exec_bind_def split: option.splits)
      next
        case (Some resp)
        have a: "client env req = (Some resp, None)"
          using c Some \<open>eo = None\<close> by simp
        show ?thesis
          using assms rq Inr a
          unfolding StartTestProxy_TestProxy_answered [OF rq [unfolded Inr] a]
          by (auto split: if_splits)
      qed
    qed
  qed
qed

lemma StartTestProxy_TestProxyVariable_outcome:
  assumes "StartTestProxy_TestProxyVariable env t (Some tpv) = Returns (r, tpo)"
  shows "(r \<noteq> None \<and> tpo = Some tpv) \<or>
     (\<exists>req resp.
        StartTestProxy_TestProxyVariable_request env t tpv = Returns (Inr req) \<and>
        client env req = (Some resp, None) \<and>
        Header_Get (Resp_Header resp) ''x-recording-id'' \<noteq> [] \<and>
        tpo = Some (tpv\<lparr>tpv_RecordingId := Header_Get (Resp_Header resp) ''x-recording-id''\<rparr>) \<and>
        r = (case Resp_Body resp of
               Inl e \<Rightarrow> Some e
             | Inr body \<Rightarrow> if body = [] then None else json_Unmarshal env body))"
proof -
  obtain rq where rq: "StartTestProxy_TestProxyVariable_request env t tpv = Returns rq"
    using request_never_panics(1) by blast
  show ?thesis
  proof (cases rq)
    case (Inl e)
    then show ?thesis
      using assms rq by (auto simp: StartTestProxy_TestProxyVariable_def exec_bind_def split: option.splits)
  next
    case (Inr req)
    obtain ro eo where c: "client env req = (ro, eo)"
      by (cases "client env req")
    show ?thesis
    proof (cases eo)
      case (Some e)
      then show ?thesis
        using assms rq Inr c by (auto simp: StartTestProxy_TestProxyVariable_def exec_bind_def split: option.splits)
    next
      case None
      show ?thesis
      proof (cases ro)
        case None
        then show ?thesis
          using assms rq Inr c \<open>eo = None\<close>
          by (auto simp: StartTestProxy_TestProxyVariable_def exec_bind_def split: option.splits)
      next
        case (Some resp)
        have a: "client env req = (Some resp, None)"
          using c Some \<open>eo = None\<close> by simp
        show ?thesis
          using assms rq Inr a
          unfolding StartTestProxy_TestProxyVariable_answered [OF rq [unfolded Inr] a]
          by (auto split: if_splits)
      qed
    qed
  qed
qed

lemma StopTestProxy_TestProxy_answered:
  assumes "StopTestProxy_TestProxy_request env tp = Returns (Inr req)"
    and "client env req = (Some resp, err)"
  shows "StopTestProxy_TestProxy env t (Some tp) =
    Returns (if Resp_StatusCode resp = 200 then err
             else Some (Errorf (''proxy did not stop the recording properly: '' @
                    (case Resp_Body resp of Inr b \<Rightarrow> b | Inl e \<Rightarrow> Error_text e))))"
  using assms
  by (simp add: StopTestProxy_TestProxy_def exec_bind_def split: sum.splits)

lemma StopTestProxy_TestProxy_no_response:
  assumes "StopTestProxy_TestProxy_request env tp = Returns (Inr req)"
    and "client env req = (None, err)"
  shows "StopTestProxy_TestProxy env t (Some tp) = Panics NilPointerDereference"
  using assms
  by (simp add: StopTestProxy_TestProxy_def exec_bind_def)

lemma StopTestProxy_TestProxyVariable_answered:
  assumes "StopTestProxy_TestProxyVariable_request env tpv = Returns (Inr req)"
    and "client env req = (Some resp, err)"
  shows "StopTestProxy_TestProxyVariable env t (Some tpv) =
    Returns (if Resp_StatusCode resp = 200 then err
             else Some (Errorf (''proxy did not stop the recording properly: '' @
                    (case Resp_Body resp of Inr b \<Rightarrow> b | Inl e \<Rightarrow> Error_text e))))"
  using assms
  by (simp add: StopTestProxy_TestProxyVariable_def exec_bind_def split: sum.splits)

lemma StopTestProxy_TestProxyVariable_no_response:
  assumes "StopTestProxy_TestProxyVariable_request env tpv = Returns (Inr req)"
    and "client env req = (None, err)"
  shows "StopTestProxy_TestProxyVariable env t (Some tpv) = Panics NilPointerDereference"
  using assms
  by (simp add: StopTestProxy_TestProxyVariable_def exec_bind_def)

lemma StopTestProxy_TestProxyVariables_sent:
  assumes "StopTestProxy_TestProxyVariables_request env tpvs = Returns (Inr req)"
  shows "StopTestProxy_TestProxyVariables env tpvs = Returns (snd (tpvs_HttpClient tpvs req))"
  using assms
  by (simp add: StopTestProxy_TestProxyVariables_def exec_bind_def)

lemmas example_env_defs = example_url_Parse_def example_path_Join_def example_json_Marshal_def
  example_json_Unmarshal_def example_Response_def answering_def failing_def example_Env_def
  example_TestProxyVariables_def example_new_TestProxy_def example_new_TestProxyVariable_def

lemma example_start_requests:
  "\<exists>req. StartTestProxy_TestProxy_request (example_Env c) ''TestCosmosDBTables''
      example_new_TestProxy = Returns (Inr req)"
  "\<exists>req. StartTestProxy_TestProxyVariable_request (example_Env c) ''TestCosmosDBTables''
      example_new_TestProxyVariable = Returns (Inr req)"
  "\<exists>req. StartTestProxy_TestProxyVariables_request (example_Env c)
      (example_TestProxyVariables c') = Returns (Inr req)"
  by (simp_all add: request_defs example_env_defs example_defs NewRequest_def exec_bind_def
      Request_Header_Set_def TestProxy_baseURL_def TestProxyVariable_baseURL_def
      TestProxyVariable_scheme_def getRecordingFilePath_def Itoa_5001)

lemma example_stop_requests:
  "\<exists>req. StopTestProxy_TestProxy_request (example_Env c) example_TestProxy = Returns (Inr req)"
  "\<exists>req. StopTestProxy_TestProxyVariable_request (example_Env c) example_TestProxyVariable =
      Returns (Inr req)"
  "\<exists>req. StopTestProxy_TestProxyVariables_request (example_Env c)
      (example_TestProxyVariables c') = Returns (Inr req)"
  by (simp_all add: request_defs example_env_defs example_defs NewRequest_def exec_bind_def
      Request_Header_Set_def TestProxy_baseURL_def TestProxyVariable_baseURL_def
      TestProxyVariable_scheme_def Itoa_5001)

lemma example_id_Header_Get: "Header_Get example_id_Header ''x-recording-id'' = ''abc123''"
  by (simp add: example_id_Header_def Header_Get_def canon_keys)

lemmas Start_defs = StartTestProxy_TestProxy_def StartTestProxy_TestProxyVariable_def
  StartTestProxy_TestProxyVariables_def request_defs NewRequest_def exec_bind_def
  Request_Header_Set_def TestProxy_baseURL_def TestProxyVariable_baseURL_def
  TestProxyVariable_scheme_def getRecordingFilePath_def Let_def

lemmas Stop_defs = StopTestProxy_TestProxy_def StopTestProxy_TestProxyVariable_def
  StopTestProxy_TestProxyVariables_def request_defs NewRequest_def exec_bind_def
  Request_Header_Set_def TestProxy_baseURL_def TestProxyVariable_baseURL_def
  TestProxyVariable_scheme_def Let_def

lemma Itoa_8080: "Itoa 8080 = ''8080''"
  by (simp add: Itoa_def nat_decimal.simps digit_char_def)

section \<open>Restoring the target on the response\<close>

text \<open>
  Claim C1, amended. \<^verbatim>\<open>TestProxyVariable.Do\<close> and \<^verbatim>\<open>TestProxy.Do\<close> capture the scheme and
  host of the request's URL before rewriting it. Whenever they return a response, the
  scheme and host of the URL of the request that response refers to equal the captured
  ones. More precisely, for a request with a URL and a header map: if the send returns no
  response, \<^verbatim>\<open>Do\<close> returns none and the error; if it returns a response that refers to a
  request with a URL, \<^verbatim>\<open>Do\<close> returns that response with only this scheme and host
  changed, together with the error; if the response refers to no request, or to one
  without URL, \<^verbatim>\<open>Do\<close> panics. \<^verbatim>\<open>TestProxyTransport.Do\<close> restores nothing: it returns
  what the inner transport returned for the rewritten request.
\<close>

theorem restoration_roundtrip:
  assumes "Req_URL req = Some u" and "Req_Header req = Some h" and "Raw preq = req"
  shows
    "(\<forall>resp err. TestProxyVariable_Do tpv req = Returns (Some resp, err) \<longrightarrow>
        Response_target resp = Request_target req) \<and>
     (\<forall>resp err. TestProxy_Do tp preq = Returns (Some resp, err) \<longrightarrow>
        Response_target resp = Request_target req) \<and>
     (\<exists>req'. TestProxyVariable_Do_rewrite tpv req = Returns (URL_Scheme u, URL_Host u, req') \<and>
        (case tpv_Client tpv req' of
           (None, err) \<Rightarrow> TestProxyVariable_Do tpv req = Returns (None, err)
         | (Some r0, err) \<Rightarrow>
             (case Response_target r0 of
                None \<Rightarrow> TestProxyVariable_Do tpv req = Panics NilPointerDereference
              | Some x \<Rightarrow>
                  (\<exists>resp. TestProxyVariable_Do tpv req = Returns (Some resp, err) \<and>
                     Response_target resp = Some (URL_Scheme u, URL_Host u) \<and>
                     Resp_StatusCode resp = Resp_StatusCode r0 \<and>
                     Resp_Header resp = Resp_Header r0 \<and>
                     Resp_Body resp = Resp_Body r0)))) \<and>
     (\<exists>req'. TestProxy_Do_rewrite tp preq = Returns (URL_Scheme u, URL_Host u, req') \<and>
        (case Next preq req' of
           (None, err) \<Rightarrow> TestProxy_Do tp preq = Returns (None, err)
         | (Some r0, err) \<Rightarrow>
             (case Response_target r0 of
                None \<Rightarrow> TestProxy_Do tp preq = Panics NilPointerDereference
              | Some x \<Rightarrow>
                  (\<exists>resp. TestProxy_Do tp preq = Returns (Some resp, err) \<and>
                     Response_target resp = Some (URL_Scheme u, URL_Host u) \<and>
                     Resp_StatusCode resp = Resp_StatusCode r0 \<and>
                     Resp_Header resp = Resp_Header r0 \<and>
                     Resp_Body resp = Resp_Body r0)))) \<and>
     (\<exists>req'. TestProxyTransport_Do_rewrite tpt req = Returns req' \<and>
        TestProxyTransport_Do tpt req = Returns (tpt_transport tpt req'))"
proof -
  let ?s = "URL_Scheme u" and ?hst = "URL_Host u"
  have target: "Request_target req = Some (?s, ?hst)"
    using assms(1) by (simp add: Request_target_def)
  obtain rv where rv: "TestProxyVariable_Do_rewrite tpv req = Returns (?s, ?hst, rv)"
    using TestProxyVariable_Do_rewrite_Returns [OF assms(1,2)] by blast
  obtain rp where rp: "TestProxy_Do_rewrite tp preq = Returns (?s, ?hst, rp)"
    using TestProxy_Do_rewrite_Returns [of preq u h] assms by blast
  obtain rt where rt: "TestProxyTransport_Do_rewrite tpt req = Returns rt"
    using TestProxyTransport_Do_rewrite_Returns [OF assms(1,2)] by blast
  have c1: "\<forall>resp err. TestProxyVariable_Do tpv req = Returns (Some resp, err) \<longrightarrow>
        Response_target resp = Request_target req"
    unfolding TestProxyVariable_Do_eq [OF rv] target
    by (intro allI impI) (rule restore_target_Returns)
  have c2: "\<forall>resp err. TestProxy_Do tp preq = Returns (Some resp, err) \<longrightarrow>
        Response_target resp = Request_target req"
    unfolding TestProxy_Do_eq [OF rp] target
    by (intro allI impI) (rule restore_target_Returns)
  show ?thesis
    apply (rule conjI, rule c1)
    apply (rule conjI, rule c2)
    apply (rule conjI, rule exI [of _ rv], rule conjI [OF rv TestProxyVariable_Do_cases [OF rv]])
    apply (rule conjI, rule exI [of _ rp], rule conjI [OF rp TestProxy_Do_cases [OF rp]])
    apply (rule exI [of _ rt], rule conjI [OF rt TestProxyTransport_Do_eq [OF rt]])
    done
qed

theorem restoration_roundtrip_witness:
  "Req_URL example_Request = Some example_URL \<and>
   Req_Header example_Request = Some example_Header \<and>
   Raw example_policy_Request = example_Request \<and>
   Result_target (TestProxyVariable_Do example_TestProxyVariable example_Request) =
     Some (''https'', ''service.example.com'') \<and>
   Result_target (TestProxy_Do example_TestProxy example_policy_Request) =
     Some (''https'', ''service.example.com'')"
proof -
  have h1: "Req_URL example_Request = Some example_URL"
    by (simp add: example_Request_def)
  have h2: "Req_Header example_Request = Some example_Header"
    by (simp add: example_Request_def)
  have h3: "Raw example_policy_Request = example_Request"
    by (simp add: example_policy_Request_def)
  note T = restoration_roundtrip [OF h1 h2 h3, of example_TestProxyVariable example_TestProxy
      example_TestProxyTransport]
  have tgt: "Request_target example_Request = Some (''https'', ''service.example.com'')"
    by (simp add: Request_target_def example_defs)
  obtain R where R: "TestProxyVariable_Do example_TestProxyVariable example_Request =
      Returns (Some R, None)"
    by (simp add: Do_defs example_defs)
  obtain P where P: "TestProxy_Do example_TestProxy example_policy_Request =
      Returns (Some P, None)"
    by (simp add: Do_defs example_defs)
  have "Response_target R = Some (''https'', ''service.example.com'')"
    using T R tgt by simp
  moreover have "Response_target P = Some (''https'', ''service.example.com'')"
    using T P tgt by simp
  ultimately show ?thesis
    using h1 h2 h3 R P by (simp add: Result_target_def)
qed

text \<open>
  The claim as stated fails for \<^verbatim>\<open>TestProxyTransport.Do\<close>: with an inner transport whose
  response refers to the request it was given, the response of \<^verbatim>\<open>Do\<close> refers to the
  proxy's host, not to the original one.
\<close>

theorem restoration_absent_counterexample:
  "Request_target example_Request = Some (''https'', ''service.example.com'') \<and>
   Result_target (TestProxyTransport_Do example_TestProxyTransport example_Request) =
     Some (''https'', ''localhost:5001'')"
  by (simp add: Do_defs example_defs Result_target_def Response_target_def Request_target_def
      Itoa_5001)

section \<open>The three recording headers\<close>

text \<open>
  Claim C2. For every request passed to \<^verbatim>\<open>Do\<close> (one with a URL and a header map, in each
  of the three variants), the request handed to the send primitive carries
  \<^verbatim>\<open>x-recording-upstream-base-uri\<close> equal to the original scheme, \<^verbatim>\<open>://\<close> and the original
  host as they were before the rewrite, \<^verbatim>\<open>x-recording-mode\<close> equal to the session's mode,
  and \<^verbatim>\<open>x-recording-id\<close> equal to the session's recording id.
\<close>

theorem recording_headers_injected:
  assumes "Req_URL req = Some u" and "Req_Header req = Some h" and "Raw preq = req"
  shows
    "(\<exists>req'. TestProxyVariable_Do_rewrite tpv req = Returns (URL_Scheme u, URL_Host u, req') \<and>
        TestProxyVariable_Do tpv req =
          restore_target (URL_Scheme u) (URL_Host u) (tpv_Client tpv req') \<and>
        Request_Header_Get req' ''x-recording-upstream-base-uri'' =
          URL_Scheme u @ ''://'' @ URL_Host u \<and>
        Request_Header_Get req' ''x-recording-mode'' = tpv_Mode tpv \<and>
        Request_Header_Get req' ''x-recording-id'' = tpv_RecordingId tpv) \<and>
     (\<exists>req'. TestProxy_Do_rewrite tp preq = Returns (URL_Scheme u, URL_Host u, req') \<and>
        TestProxy_Do tp preq =
          restore_target (URL_Scheme u) (URL_Host u) (Next preq req') \<and>
        Request_Header_Get req' ''x-recording-upstream-base-uri'' =
          URL_Scheme u @ ''://'' @ URL_Host u \<and>
        Request_Header_Get req' ''x-recording-mode'' = tp_Mode tp \<and>
        Request_Header_Get req' ''x-recording-id'' = tp_RecordingId tp) \<and>
     (\<exists>req'. TestProxyTransport_Do_rewrite tpt req = Returns req' \<and>
        TestProxyTransport_Do tpt req = Returns (tpt_transport tpt req') \<and>
        Request_Header_Get req' ''x-recording-upstream-base-uri'' =
          URL_Scheme u @ ''://'' @ URL_Host u \<and>
        Request_Header_Get req' ''x-recording-mode'' = tpt_mode tpt \<and>
        Request_Header_Get req' ''x-recording-id'' = tpt_recordingId tpt)"
proof -
  note rv = TestProxyVariable_Do_rewrite_Returns [OF assms(1,2), of tpv]
  note rp = TestProxy_Do_rewrite_Returns [of preq u h tp, unfolded assms(3), OF assms(1,2)]
  note rt = TestProxyTransport_Do_rewrite_Returns [OF assms(1,2), of tpt]
  note get = three_headers_Get [unfolded header_name_defs] three_headers_Get_literal
  show ?thesis
    apply (intro conjI)
      apply (rule exI, rule conjI, rule rv, rule conjI, rule TestProxyVariable_Do_eq [OF rv])
      apply (simp add: Request_Header_Get_def get header_name_defs)
     apply (rule exI, rule conjI, rule rp, rule conjI, rule TestProxy_Do_eq [OF rp])
     apply (simp add: Request_Header_Get_def get header_name_defs)
    apply (rule exI, rule conjI, rule rt, rule conjI, rule TestProxyTransport_Do_eq [OF rt])
    apply (simp add: Request_Header_Get_def get)
    done
qed

theorem recording_headers_injected_witness:
  "Req_URL example_Request = Some example_URL \<and>
   Req_Header example_Request = Some example_Header \<and>
   Raw example_policy_Request = example_Request \<and>
   (\<exists>req'. TestProxyVariable_Do_rewrite example_TestProxyVariable example_Request =
        Returns (''https'', ''service.example.com'', req') \<and>
      Request_Header_Get req' ''x-recording-upstream-base-uri'' = ''https://service.example.com'' \<and>
      Request_Header_Get req' ''x-recording-mode'' = ''record'' \<and>
      Request_Header_Get req' ''x-recording-id'' = ''abc123'') \<and>
   (\<exists>req'. TestProxy_Do_rewrite example_TestProxy example_policy_Request =
        Returns (''https'', ''service.example.com'', req') \<and>
      Request_Header_Get req' ''x-recording-upstream-base-uri'' = ''https://service.example.com'' \<and>
      Request_Header_Get req' ''x-recording-mode'' = ''record'' \<and>
      Request_Header_Get req' ''x-recording-id'' = ''abc123'') \<and>
   (\<exists>req'. TestProxyTransport_Do_rewrite example_TestProxyTransport example_Request =
        Returns req' \<and>
      Request_Header_Get req' ''x-recording-upstream-base-uri'' = ''https://service.example.com'' \<and>
      Request_Header_Get req' ''x-recording-mode'' = ''record'' \<and>
      Request_Header_Get req' ''x-recording-id'' = ''abc123'')"
proof -
  have h1: "Req_URL example_Request = Some example_URL"
    by (simp add: example_Request_def)
  have h2: "Req_Header example_Request = Some example_Header"
    by (simp add: example_Request_def)
  have h3: "Raw example_policy_Request = example_Request"
    by (simp add: example_policy_Request_def)
  have v: "URL_Scheme example_URL = ''https''" "URL_Host example_URL = ''service.example.com''"
    "tpv_Mode example_TestProxyVariable = ''record''"
    "tpv_RecordingId example_TestProxyVariable = ''abc123''"
    "tp_Mode example_TestProxy = ''record''"
    "tp_RecordingId example_TestProxy = ''abc123''"
    "tpt_mode example_TestProxyTransport = ''record''"
    "tpt_recordingId example_TestProxyTransport = ''abc123''"
    by (simp_all add: example_defs)
  note T = recording_headers_injected [OF h1 h2 h3, of example_TestProxyVariable
      example_TestProxy example_TestProxyTransport, unfolded v, simplified]
  show ?thesis
    using h1 h2 h3 T by blast
qed

section \<open>Overwriting the target\<close>

text \<open>
  Claim C3, amended. For every request with a URL and a header map,
  \<^verbatim>\<open>TestProxyVariable.Do\<close> and \<^verbatim>\<open>TestProxy.Do\<close> overwrite the URL scheme with the proxy's
  scheme, and the URL host and the \<^verbatim>\<open>Host\<close> field with the proxy's \<^verbatim>\<open>host:port\<close>, before
  the request is sent. \<^verbatim>\<open>TestProxyTransport.Do\<close> overwrites the URL host with the proxy's
  \<^verbatim>\<open>host:port\<close> only: the URL scheme and the \<^verbatim>\<open>Host\<close> field stay as they were.
\<close>

theorem target_overwritten:
  assumes "Req_URL req = Some u" and "Req_Header req = Some h" and "Raw preq = req"
  shows
    "(\<exists>req'. TestProxyVariable_Do_rewrite tpv req = Returns (URL_Scheme u, URL_Host u, req') \<and>
        TestProxyVariable_Do tpv req =
          restore_target (URL_Scheme u) (URL_Host u) (tpv_Client tpv req') \<and>
        Request_target req' =
          Some (TestProxyVariable_scheme tpv, tpv_Host tpv @ '':'' @ Itoa (tpv_Port tpv)) \<and>
        Req_Host req' = tpv_Host tpv @ '':'' @ Itoa (tpv_Port tpv)) \<and>
     (\<exists>req'. TestProxy_Do_rewrite tp preq = Returns (URL_Scheme u, URL_Host u, req') \<and>
        TestProxy_Do tp preq =
          restore_target (URL_Scheme u) (URL_Host u) (Next preq req') \<and>
        Request_target req' =
          Some (TestProxy_scheme tp, tp_Host tp @ '':'' @ Itoa (tp_Port tp)) \<and>
        Req_Host req' = tp_Host tp @ '':'' @ Itoa (tp_Port tp)) \<and>
     (\<exists>req'. TestProxyTransport_Do_rewrite tpt req = Returns req' \<and>
        TestProxyTransport_Do tpt req = Returns (tpt_transport tpt req') \<and>
        Request_target req' =
          Some (URL_Scheme u, tpt_host tpt @ '':'' @ Itoa (tpt_port tpt)) \<and>
        Req_Host req' = Req_Host req)"
proof -
  note rv = TestProxyVariable_Do_rewrite_Returns [OF assms(1,2), of tpv]
  note rp = TestProxy_Do_rewrite_Returns [of preq u h tp, unfolded assms(3), OF assms(1,2)]
  note rt = TestProxyTransport_Do_rewrite_Returns [OF assms(1,2), of tpt]
  show ?thesis
    apply (intro conjI)
      apply (rule exI, rule conjI, rule rv, rule conjI, rule TestProxyVariable_Do_eq [OF rv])
      apply (simp add: Request_target_def TestProxyVariable_host_def)
     apply (rule exI, rule conjI, rule rp, rule conjI, rule TestProxy_Do_eq [OF rp])
     apply (simp add: Request_target_def TestProxy_host_def)
    apply (rule exI, rule conjI, rule rt, rule conjI, rule TestProxyTransport_Do_eq [OF rt])
    apply (simp add: Request_target_def)
    done
qed

theorem target_overwritten_witness:
  "Req_URL example_Request = Some example_URL \<and>
   Req_Header example_Request = Some example_Header \<and>
   Raw example_policy_Request = example_Request \<and>
   (\<exists>req'. TestProxyVariable_Do_rewrite example_TestProxyVariable example_Request =
        Returns (''https'', ''service.example.com'', req') \<and>
      Request_target req' = Some (''https'', ''localhost:5001'') \<and>
      Req_Host req' = ''localhost:5001'') \<and>
   (\<exists>req'. TestProxy_Do_rewrite example_TestProxy example_policy_Request =
        Returns (''https'', ''service.example.com'', req') \<and>
      Request_target req' = Some (''https'', ''localhost:5001'') \<and>
      Req_Host req' = ''localhost:5001'') \<and>
   (\<exists>req'. TestProxyTransport_Do_rewrite example_TestProxyTransport example_Request =
        Returns req' \<and>
      Request_target req' = Some (''https'', ''localhost:5001'') \<and>
      Req_Host req' = ''service.example.com'')"
proof -
  have h1: "Req_URL example_Request = Some example_URL"
    by (simp add: example_Request_def)
  have h2: "Req_Header example_Request = Some example_Header"
    by (simp add: example_Request_def)
  have h3: "Raw example_policy_Request = example_Request"
    by (simp add: example_policy_Request_def)
  have v: "URL_Scheme example_URL = ''https''" "URL_Host example_URL = ''service.example.com''"
    "TestProxyVariable_scheme example_TestProxyVariable = ''https''"
    "tpv_Host example_TestProxyVariable = ''localhost''"
    "tpv_Port example_TestProxyVariable = 5001"
    "TestProxy_scheme example_TestProxy = ''https''"
    "tp_Host example_TestProxy = ''localhost''"
    "tp_Port example_TestProxy = 5001"
    "tpt_host example_TestProxyTransport = ''localhost''"
    "tpt_port example_TestProxyTransport = 5001"
    "Req_Host example_Request = ''service.example.com''"
    by (simp_all add: example_defs TestProxyVariable_scheme_def TestProxy_scheme_def)
  note T = target_overwritten [OF h1 h2 h3, of example_TestProxyVariable
      example_TestProxy example_TestProxyTransport, unfolded v Itoa_5001, simplified]
  show ?thesis
    using h1 h2 h3 T by blast
qed

text \<open>
  The claim as stated fails for \<^verbatim>\<open>TestProxyTransport.Do\<close>: a request to
  \<^verbatim>\<open>http://service.example.com\<close> is sent with scheme \<^verbatim>\<open>http\<close> and \<^verbatim>\<open>Host\<close>
  \<^verbatim>\<open>service.example.com\<close>, although its URL host is now \<^verbatim>\<open>localhost:5001\<close>.
\<close>

theorem target_overwritten_counterexample:
  "map_exec Request_target (TestProxyTransport_Do_rewrite example_TestProxyTransport
      example_http_Request) = Returns (Some (''http'', ''localhost:5001'')) \<and>
   map_exec Req_Host (TestProxyTransport_Do_rewrite example_TestProxyTransport
      example_http_Request) = Returns ''service.example.com''"
  by (simp add: Do_defs example_defs example_http_Request_def Request_target_def Itoa_5001)

section \<open>Start without a recording id\<close>

text \<open>
  Claim C4, amended. In the variants with \<^verbatim>\<open>TestProxy\<close> and \<^verbatim>\<open>TestProxyVariable\<close>, when the
  client answers the start request with a response and no error, and the response's
  \<^verbatim>\<open>x-recording-id\<close> header is absent or empty, \<^verbatim>\<open>StartTestProxy\<close> returns an error and
  leaves the session as it was: the error
  \<^verbatim>\<open>recording ID was not returned by the response. Response body: \<close> followed by the
  body when the body can be read, whatever it contains, and the read error otherwise.
  In \<^verbatim>\<open>testproxytransport.go\<close>, \<^verbatim>\<open>StartTestProxy\<close> has no such check: it stores the value of
  the header, empty or not, as the recording id and returns no error.
\<close>

theorem start_without_recording_id:
  "(StartTestProxy_TestProxy_request env t tp = Returns (Inr req) \<and>
    client env req = (Some resp, None) \<and>
    Header_Get (Resp_Header resp) ''x-recording-id'' = [] \<longrightarrow>
      StartTestProxy_TestProxy env t (Some tp) =
        Returns (Some (case Resp_Body resp of
            Inl e \<Rightarrow> e
          | Inr b \<Rightarrow> Errorf (''recording ID was not returned by the response. Response body: '' @ b)),
          Some tp)) \<and>
   (StartTestProxy_TestProxyVariable_request env t tpv = Returns (Inr req) \<and>
    client env req = (Some resp, None) \<and>
    Header_Get (Resp_Header resp) ''x-recording-id'' = [] \<longrightarrow>
      StartTestProxy_TestProxyVariable env t (Some tpv) =
        Returns (Some (case Resp_Body resp of
            Inl e \<Rightarrow> e
          | Inr b \<Rightarrow> Errorf (''recording ID was not returned by the response. Response body: '' @ b)),
          Some tpv)) \<and>
   (StartTestProxy_TestProxyVariables_request env tpvs = Returns (Inr req) \<and>
    tpvs_HttpClient tpvs req = (Some resp, None) \<longrightarrow>
      StartTestProxy_TestProxyVariables env tpvs =
        Returns (None,
          tpvs\<lparr>tpvs_RecordingId := Header_Get (Resp_Header resp) ''x-recording-id''\<rparr>))"
  by (simp add: StartTestProxy_TestProxy_answered StartTestProxy_TestProxyVariable_answered
      StartTestProxy_TestProxyVariables_answered)

theorem start_without_recording_id_witness:
  "(\<exists>req. StartTestProxy_TestProxy_request
        (example_Env (answering (example_Response 200 Map.empty ''no session'')))
        ''TestCosmosDBTables'' example_new_TestProxy = Returns (Inr req)) \<and>
   Header_Get (Resp_Header (example_Response 200 Map.empty ''no session'')) ''x-recording-id'' = [] \<and>
   StartTestProxy_TestProxy
       (example_Env (answering (example_Response 200 Map.empty ''no session'')))
       ''TestCosmosDBTables'' (Some example_new_TestProxy) =
     Returns (Some (Errorf
       ''recording ID was not returned by the response. Response body: no session''),
       Some example_new_TestProxy) \<and>
   StartTestProxy_TestProxyVariable
       (example_Env (answering (example_Response 200 Map.empty ''no session'')))
       ''TestCosmosDBTables'' (Some example_new_TestProxyVariable) =
     Returns (Some (Errorf
       ''recording ID was not returned by the response. Response body: no session''),
       Some example_new_TestProxyVariable) \<and>
   StartTestProxy_TestProxyVariables (example_Env example_transport)
       (example_TestProxyVariables (answering (example_Response 200 example_id_Header ''{}''))) =
     Returns (None,
       (example_TestProxyVariables (answering (example_Response 200 example_id_Header ''{}'')))
         \<lparr>tpvs_RecordingId := ''abc123''\<rparr>)"
proof -
  let ?ok = "example_Response 200 example_id_Header ''{}''"
  let ?tpvs = "example_TestProxyVariables (answering ?ok)"
  obtain rs where rs: "StartTestProxy_TestProxyVariables_request (example_Env example_transport)
      ?tpvs = Returns (Inr rs)"
    using example_start_requests(3) by blast
  have cs: "tpvs_HttpClient ?tpvs rs = (Some ?ok, None)"
    by (simp add: example_TestProxyVariables_def answering_def)
  have gs: "Header_Get (Resp_Header ?ok) ''x-recording-id'' = ''abc123''"
    by (simp add: example_Response_def example_id_Header_Get)
  have s: "StartTestProxy_TestProxyVariables (example_Env example_transport) ?tpvs =
     Returns (None, ?tpvs\<lparr>tpvs_RecordingId := ''abc123''\<rparr>)"
    using start_without_recording_id [of "example_Env example_transport" _ _ rs ?ok _ ?tpvs]
      rs cs gs by simp
  let ?resp = "example_Response 200 Map.empty ''no session''"
  let ?env = "example_Env (answering ?resp)"
  obtain rp where rp: "StartTestProxy_TestProxy_request ?env ''TestCosmosDBTables''
      example_new_TestProxy = Returns (Inr rp)"
    using example_start_requests(1) by blast
  obtain rv where rv: "StartTestProxy_TestProxyVariable_request ?env ''TestCosmosDBTables''
      example_new_TestProxyVariable = Returns (Inr rv)"
    using example_start_requests(2) by blast
  have c: "client ?env rp = (Some ?resp, None)" "client ?env rv = (Some ?resp, None)"
    by (simp_all add: example_Env_def answering_def)
  have g: "Header_Get (Resp_Header ?resp) ''x-recording-id'' = []"
    by (simp add: example_Response_def Header_Get_def)
  have b: "Resp_Body ?resp = Inr ''no session''"
    by (simp add: example_Response_def)
  have "StartTestProxy_TestProxy ?env ''TestCosmosDBTables'' (Some example_new_TestProxy) =
     Returns (Some (Errorf
       ''recording ID was not returned by the response. Response body: no session''),
       Some example_new_TestProxy)"
    using start_without_recording_id [of ?env "''TestCosmosDBTables''" example_new_TestProxy
        rp ?resp] rp c g b by simp
  moreover have "StartTestProxy_TestProxyVariable ?env ''TestCosmosDBTables''
      (Some example_new_TestProxyVariable) =
     Returns (Some (Errorf
       ''recording ID was not returned by the response. Response body: no session''),
       Some example_new_TestProxyVariable)"
    using start_without_recording_id [of ?env "''TestCosmosDBTables''" _ rv ?resp
        example_new_TestProxyVariable] rv c g b by simp
  ultimately show ?thesis
    using rp g s by blast
qed

text \<open>
  The claim as stated fails in \<^verbatim>\<open>testproxytransport.go\<close>: a response without the header
  makes \<^verbatim>\<open>StartTestProxy\<close> return success, with an empty recording id in the session.
\<close>

theorem start_without_recording_id_counterexample:
  "Header_Get (Resp_Header (example_Response 200 Map.empty ''no session'')) ''x-recording-id'' = [] \<and>
   StartTestProxy_TestProxyVariables (example_Env example_transport)
       (example_TestProxyVariables (answering (example_Response 200 Map.empty ''no session''))) =
     Returns (None,
       example_TestProxyVariables (answering (example_Response 200 Map.empty ''no session''))) \<and>
   tpvs_RecordingId
       (example_TestProxyVariables (answering (example_Response 200 Map.empty ''no session''))) = []"
  by (simp add: StartTestProxy_TestProxyVariables_def
      StartTestProxy_TestProxyVariables_request_def example_env_defs NewRequest_def
      exec_bind_def Request_Header_Set_def Header_Get_def Itoa_5001)

section \<open>The stop request\<close>

text \<open>
  Claim C5. The stop request of \<^verbatim>\<open>testproxytransport.go\<close> carries \<^verbatim>\<open>x-recording-id\<close> and
  \<^verbatim>\<open>x-recording-save: true\<close>. The stop request of the variants with \<^verbatim>\<open>TestProxy\<close> and
  \<^verbatim>\<open>TestProxyVariable\<close> carries the recording id but no \<^verbatim>\<open>x-recording-save\<close> header,
  against the doc comment of \<^verbatim>\<open>StopTestProxy\<close> in these files (\<^emph>\<open>we pass in the recording
  ID and a directive to save the recording\<close>; one copy of the \<^verbatim>\<open>TestProxy\<close> variant has
  a shorter comment that does not say so). Evaluated for the example session.
\<close>

theorem stop_request_save_directive:
  "Built_Header_Get (StopTestProxy_TestProxy_request (example_Env example_transport)
      example_TestProxy) ''x-recording-id'' = Some ''abc123'' \<and>
   Built_Header_Get (StopTestProxy_TestProxy_request (example_Env example_transport)
      example_TestProxy) ''x-recording-save'' = Some [] \<and>
   Built_Header_Get (StopTestProxy_TestProxyVariable_request (example_Env example_transport)
      example_TestProxyVariable) ''x-recording-id'' = Some ''abc123'' \<and>
   Built_Header_Get (StopTestProxy_TestProxyVariable_request (example_Env example_transport)
      example_TestProxyVariable) ''x-recording-save'' = Some [] \<and>
   Built_Header_Get (StopTestProxy_TestProxyVariables_request (example_Env example_transport)
      (example_TestProxyVariables example_transport)) ''x-recording-save'' = Some ''true''"
  by (simp add: Stop_defs example_env_defs example_defs Itoa_5001 Built_Header_Get_def
      Request_Header_Get_def Header_Get_def Header_Set_def RecordingIdHeader_def canon_keys)

section \<open>The status of the stop response\<close>

text \<open>
  Claim C6, amended. In the variants with \<^verbatim>\<open>TestProxy\<close> and \<^verbatim>\<open>TestProxyVariable\<close>, when the
  client answers the stop request with a response and no error, \<^verbatim>\<open>StopTestProxy\<close> returns
  no error if the status is 200, and otherwise the error
  \<^verbatim>\<open>proxy did not stop the recording properly: \<close> followed by the response body, or by
  the text of the read error when the body cannot be read. In \<^verbatim>\<open>testproxytransport.go\<close>,
  \<^verbatim>\<open>StopTestProxy\<close> does not look at the response: it returns the client's error, hence no
  error for a response of any status.
\<close>

theorem stop_status:
  "(StopTestProxy_TestProxy_request env tp = Returns (Inr req) \<and>
    client env req = (Some resp, None) \<longrightarrow>
      StopTestProxy_TestProxy env t (Some tp) =
        Returns (if Resp_StatusCode resp = 200 then None
                 else Some (Errorf (''proxy did not stop the recording properly: '' @
                        (case Resp_Body resp of Inr b \<Rightarrow> b | Inl e \<Rightarrow> Error_text e))))) \<and>
   (StopTestProxy_TestProxyVariable_request env tpv = Returns (Inr req) \<and>
    client env req = (Some resp, None) \<longrightarrow>
      StopTestProxy_TestProxyVariable env t (Some tpv) =
        Returns (if Resp_StatusCode resp = 200 then None
                 else Some (Errorf (''proxy did not stop the recording properly: '' @
                        (case Resp_Body resp of Inr b \<Rightarrow> b | Inl e \<Rightarrow> Error_text e))))) \<and>
   (StopTestProxy_TestProxyVariables_request env tpvs = Returns (Inr req) \<longrightarrow>
      StopTestProxy_TestProxyVariables env tpvs = Returns (snd (tpvs_HttpClient tpvs req)))"
  by (simp add: StopTestProxy_TestProxy_answered StopTestProxy_TestProxyVariable_answered
      StopTestProxy_TestProxyVariables_sent)

theorem stop_status_witness:
  "(\<exists>req. StopTestProxy_TestProxy_request
        (example_Env (answering (example_Response 500 Map.empty ''boom'')))
        example_TestProxy = Returns (Inr req)) \<and>
   StopTestProxy_TestProxy (example_Env (answering (example_Response 500 Map.empty ''boom'')))
       ''TestCosmosDBTables'' (Some example_TestProxy) =
     Returns (Some (Errorf ''proxy did not stop the recording properly: boom'')) \<and>
   StopTestProxy_TestProxy (example_Env (answering (example_Response 200 Map.empty [])))
       ''TestCosmosDBTables'' (Some example_TestProxy) = Returns None \<and>
   StopTestProxy_TestProxyVariable
       (example_Env (answering (example_Response 500 Map.empty ''boom'')))
       ''TestCosmosDBTables'' (Some example_TestProxyVariable) =
     Returns (Some (Errorf ''proxy did not stop the recording properly: boom'')) \<and>
   StopTestProxy_TestProxyVariable (example_Env (answering (example_Response 200 Map.empty [])))
       ''TestCosmosDBTables'' (Some example_TestProxyVariable) = Returns None \<and>
   StopTestProxy_TestProxyVariables (example_Env example_transport)
       (example_TestProxyVariables (failing (External ''connection refused''))) =
     Returns (Some (External ''connection refused''))"
proof -
  let ?bad = "example_Response 500 Map.empty ''boom''"
  let ?good = "example_Response 200 Map.empty []"
  obtain rp where rp: "StopTestProxy_TestProxy_request (example_Env (answering ?bad))
      example_TestProxy = Returns (Inr rp)"
    using example_stop_requests(1) by blast
  obtain rp' where rp': "StopTestProxy_TestProxy_request (example_Env (answering ?good))
      example_TestProxy = Returns (Inr rp')"
    using example_stop_requests(1) by blast
  obtain rv where rv: "StopTestProxy_TestProxyVariable_request (example_Env (answering ?bad))
      example_TestProxyVariable = Returns (Inr rv)"
    using example_stop_requests(2) by blast
  obtain rv' where rv': "StopTestProxy_TestProxyVariable_request (example_Env (answering ?good))
      example_TestProxyVariable = Returns (Inr rv')"
    using example_stop_requests(2) by blast
  obtain rs where rs: "StopTestProxy_TestProxyVariables_request (example_Env example_transport)
      (example_TestProxyVariables (failing (External ''connection refused''))) =
      Returns (Inr rs)"
    using example_stop_requests(3) by blast
  have c: "client (example_Env (answering r)) q = (Some r, None)" for r q
    by (simp add: example_Env_def answering_def)
  have f: "tpvs_HttpClient (example_TestProxyVariables (failing e)) q = (None, Some e)" for e q
    by (simp add: example_TestProxyVariables_def failing_def)
  have v: "Resp_StatusCode ?bad = 500" "Resp_Body ?bad = Inr ''boom''"
    "Resp_StatusCode ?good = 200"
    by (simp_all add: example_Response_def)
  have 1: "StopTestProxy_TestProxy (example_Env (answering ?bad)) ''TestCosmosDBTables''
      (Some example_TestProxy) =
     Returns (Some (Errorf ''proxy did not stop the recording properly: boom''))"
    using stop_status [of "example_Env (answering ?bad)" example_TestProxy rp ?bad
        "''TestCosmosDBTables''"] rp c v by simp
  have 2: "StopTestProxy_TestProxy (example_Env (answering ?good)) ''TestCosmosDBTables''
      (Some example_TestProxy) = Returns None"
    using stop_status [of "example_Env (answering ?good)" example_TestProxy rp' ?good
        "''TestCosmosDBTables''"] rp' c v by simp
  have 3: "StopTestProxy_TestProxyVariable (example_Env (answering ?bad)) ''TestCosmosDBTables''
      (Some example_TestProxyVariable) =
     Returns (Some (Errorf ''proxy did not stop the recording properly: boom''))"
    using stop_status [of "example_Env (answering ?bad)" _ rv ?bad _
        example_TestProxyVariable] rv c v by simp
  have 4: "StopTestProxy_TestProxyVariable (example_Env (answering ?good)) ''TestCosmosDBTables''
      (Some example_TestProxyVariable) = Returns None"
    using stop_status [of "example_Env (answering ?good)" _ rv' ?good _
        example_TestProxyVariable] rv' c v by simp
  have 5: "StopTestProxy_TestProxyVariables (example_Env example_transport)
       (example_TestProxyVariables (failing (External ''connection refused''))) =
     Returns (Some (External ''connection refused''))"
    using stop_status [of "example_Env example_transport" _ rs _ _ _
        "example_TestProxyVariables (failing (External ''connection refused''))"] rs f
    by simp
  show ?thesis
    using rp 1 2 3 4 5 by blast
qed

text \<open>
  The claim as stated fails in \<^verbatim>\<open>testproxytransport.go\<close>: a response with status 500 and
  body \<^verbatim>\<open>boom\<close> makes \<^verbatim>\<open>StopTestProxy\<close> return no error.
\<close>

theorem stop_status_counterexample:
  "Resp_StatusCode (example_Response 500 Map.empty ''boom'') = 500 \<and>
   StopTestProxy_TestProxyVariables (example_Env example_transport)
       (example_TestProxyVariables (answering (example_Response 500 Map.empty ''boom''))) =
     Returns None"
  by (simp add: Stop_defs example_env_defs Itoa_5001)

section \<open>A transport error in stop\<close>

text \<open>
  Claim C7. When the client returns no response and an error, \<^verbatim>\<open>StopTestProxy\<close> of the
  variants with \<^verbatim>\<open>TestProxy\<close> and \<^verbatim>\<open>TestProxyVariable\<close> reads \<^verbatim>\<open>resp.StatusCode\<close> before
  it looks at the error: the call panics on the \<^verbatim>\<open>nil\<close> response instead of returning the
  error. \<^verbatim>\<open>StartTestProxy\<close> of the same variants checks the error first and returns it.
  Evaluated for a client that fails with \<^verbatim>\<open>connection refused\<close>.
\<close>

theorem stop_transport_error_panics:
  "client (example_Env (failing (External ''connection refused''))) example_Request =
     (None, Some (External ''connection refused'')) \<and>
   StopTestProxy_TestProxy (example_Env (failing (External ''connection refused'')))
       ''TestCosmosDBTables'' (Some example_TestProxy) = Panics NilPointerDereference \<and>
   StopTestProxy_TestProxyVariable (example_Env (failing (External ''connection refused'')))
       ''TestCosmosDBTables'' (Some example_TestProxyVariable) = Panics NilPointerDereference \<and>
   StartTestProxy_TestProxy (example_Env (failing (External ''connection refused'')))
       ''TestCosmosDBTables'' (Some example_TestProxy) =
     Returns (Some (External ''connection refused''), Some example_TestProxy) \<and>
   StartTestProxy_TestProxyVariable (example_Env (failing (External ''connection refused'')))
       ''TestCosmosDBTables'' (Some example_TestProxyVariable) =
     Returns (Some (External ''connection refused''), Some example_TestProxyVariable)"
  by (simp add: Stop_defs Start_defs example_env_defs example_defs Itoa_5001)

section \<open>The scheme of the proxy\<close>

text \<open>
  Claim C8, amended. In the variant with \<^verbatim>\<open>TestProxyVariable\<close> the proxy's scheme is
  \<^verbatim>\<open>https\<close> when the port is 5001 and \<^verbatim>\<open>http\<close> for every other port, alike for start,
  stop and the intercepted send: the base URL starts with it, the start and stop requests
  are built from the base URL, and \<^verbatim>\<open>Do\<close> writes it into the request's URL. The variant
  with \<^verbatim>\<open>TestProxy\<close> uses \<^verbatim>\<open>https\<close> for every port in all three operations.
  \<^verbatim>\<open>testproxytransport.go\<close> uses \<^verbatim>\<open>https\<close> for every port in start and stop, and its
  \<^verbatim>\<open>Do\<close> leaves the scheme of the request as it was.
\<close>

theorem scheme_selection:
  "TestProxyVariable_scheme tpv = (if tpv_Port tpv = 5001 then ''https'' else ''http'') \<and>
   TestProxyVariable_baseURL tpv =
     TestProxyVariable_scheme tpv @ ''://'' @ tpv_Host tpv @ '':'' @ Itoa (tpv_Port tpv) \<and>
   (url_Parse env (TestProxyVariable_scheme tpv @ ''://'' @ tpv_Host tpv @ '':''
        @ Itoa (tpv_Port tpv) @ ''/'' @ tpv_Mode tpv @ ''/start'') = Inr u \<and>
    json_Marshal env [(''x-recording-file'',
        path_Join env [tpv_RecordingPath tpv, ''recordings'', t @ ''.json''])] = Inr m \<longrightarrow>
      (\<exists>r. StartTestProxy_TestProxyVariable_request env t tpv = Returns (Inr r) \<and>
           Req_Method r = ''POST'' \<and> Req_URL r = Some u)) \<and>
   (url_Parse env (TestProxyVariable_scheme tpv @ ''://'' @ tpv_Host tpv @ '':''
        @ Itoa (tpv_Port tpv) @ ''/'' @ tpv_Mode tpv @ ''/stop'') = Inr u \<longrightarrow>
      (\<exists>r. StopTestProxy_TestProxyVariable_request env tpv = Returns (Inr r) \<and>
           Req_Method r = ''POST'' \<and> Req_URL r = Some u)) \<and>
   (Req_URL req = Some u0 \<and> Req_Header req = Some h \<longrightarrow>
      (\<exists>req'. TestProxyVariable_Do_rewrite tpv req = Returns (URL_Scheme u0, URL_Host u0, req') \<and>
           map_option URL_Scheme (Req_URL req') = Some (TestProxyVariable_scheme tpv))) \<and>
   TestProxy_scheme tp = ''https'' \<and>
   TestProxy_baseURL tp = ''https://'' @ tp_Host tp @ '':'' @ Itoa (tp_Port tp) \<and>
   (url_Parse env (''https://'' @ tp_Host tp @ '':'' @ Itoa (tp_Port tp) @ ''/'' @ tp_Mode tp
        @ ''/start'') = Inr u \<and>
    json_Marshal env [(''x-recording-file'',
        path_Join env [tp_RecordingPath tp, ''recordings'', t @ ''.json''])] = Inr m \<longrightarrow>
      (\<exists>r. StartTestProxy_TestProxy_request env t tp = Returns (Inr r) \<and>
           Req_Method r = ''POST'' \<and> Req_URL r = Some u)) \<and>
   (url_Parse env (''https://'' @ tp_Host tp @ '':'' @ Itoa (tp_Port tp) @ ''/'' @ tp_Mode tp
        @ ''/stop'') = Inr u \<longrightarrow>
      (\<exists>r. StopTestProxy_TestProxy_request env tp = Returns (Inr r) \<and>
           Req_Method r = ''POST'' \<and> Req_URL r = Some u)) \<and>
   (Req_URL (Raw preq) = Some u0 \<and> Req_Header (Raw preq) = Some h \<longrightarrow>
      (\<exists>req'. TestProxy_Do_rewrite tp preq = Returns (URL_Scheme u0, URL_Host u0, req') \<and>
           map_option URL_Scheme (Req_URL req') = Some ''https'')) \<and>
   (url_Parse env (''https://'' @ tpvs_Host tpvs @ '':'' @ Itoa (tpvs_Port tpvs) @ ''/''
        @ tpvs_Mode tpvs @ ''/start'') = Inr u \<and>
    json_Marshal env [(''x-recording-file'', tpvs_CurrentRecordingPath tpvs)] = Inr m \<longrightarrow>
      (\<exists>r. StartTestProxy_TestProxyVariables_request env tpvs = Returns (Inr r) \<and>
           Req_Method r = ''POST'' \<and> Req_URL r = Some u)) \<and>
   (url_Parse env (''https://'' @ tpvs_Host tpvs @ '':'' @ Itoa (tpvs_Port tpvs) @ ''/''
        @ tpvs_Mode tpvs @ ''/stop'') = Inr u \<longrightarrow>
      (\<exists>r. StopTestProxy_TestProxyVariables_request env tpvs = Returns (Inr r) \<and>
           Req_Method r = ''POST'' \<and> Req_URL r = Some u)) \<and>
   (Req_URL req = Some u0 \<and> Req_Header req = Some h \<longrightarrow>
      (\<exists>req'. TestProxyTransport_Do_rewrite tpt req = Returns req' \<and>
           map_option URL_Scheme (Req_URL req') = Some (URL_Scheme u0)))"
  apply (intro conjI impI)
              apply (simp add: TestProxyVariable_scheme_def)
             apply (simp add: TestProxyVariable_baseURL_def)
            apply (simp add: StartTestProxy_TestProxyVariable_request_Inr)
           apply (simp add: StopTestProxy_TestProxyVariable_request_Inr)
          apply (simp add: TestProxyVariable_Do_rewrite_Returns)
         apply (simp add: TestProxy_scheme_def)
        apply (simp add: TestProxy_baseURL_def)
       apply (simp add: StartTestProxy_TestProxy_request_Inr)
      apply (simp add: StopTestProxy_TestProxy_request_Inr)
     apply (simp add: TestProxy_Do_rewrite_Returns TestProxy_scheme_def)
    apply (simp add: StartTestProxy_TestProxyVariables_request_Inr)
   apply (simp add: StopTestProxy_TestProxyVariables_request_Inr)
  apply (simp add: TestProxyTransport_Do_rewrite_Returns)
  done

theorem scheme_selection_witness:
  "TestProxyVariable_scheme example_TestProxyVariable = ''https'' \<and>
   TestProxyVariable_scheme (example_TestProxyVariable\<lparr>tpv_Port := 8080\<rparr>) = ''http'' \<and>
   (\<exists>r. StartTestProxy_TestProxyVariable_request (example_Env example_transport)
          ''TestCosmosDBTables'' example_TestProxyVariable = Returns (Inr r) \<and>
        map_option URL_Scheme (Req_URL r) = Some ''https'') \<and>
   (\<exists>r. StopTestProxy_TestProxyVariable_request (example_Env example_transport)
          example_TestProxyVariable = Returns (Inr r) \<and>
        map_option URL_Scheme (Req_URL r) = Some ''https'') \<and>
   (\<exists>req'. TestProxyVariable_Do_rewrite (example_TestProxyVariable\<lparr>tpv_Port := 8080\<rparr>)
          example_Request = Returns (''https'', ''service.example.com'', req') \<and>
        map_option URL_Scheme (Req_URL req') = Some ''http'') \<and>
   (\<exists>r. StartTestProxy_TestProxy_request (example_Env example_transport)
          ''TestCosmosDBTables'' example_TestProxy = Returns (Inr r) \<and>
        map_option URL_Scheme (Req_URL r) = Some ''https'') \<and>
   (\<exists>r. StopTestProxy_TestProxy_request (example_Env example_transport)
          example_TestProxy = Returns (Inr r) \<and>
        map_option URL_Scheme (Req_URL r) = Some ''https'') \<and>
   (\<exists>req'. TestProxy_Do_rewrite (example_TestProxy\<lparr>tp_Port := 8080\<rparr>)
          example_policy_Request = Returns (''https'', ''service.example.com'', req') \<and>
        map_option URL_Scheme (Req_URL req') = Some ''https'') \<and>
   (\<exists>r. StartTestProxy_TestProxyVariables_request (example_Env example_transport)
          (example_TestProxyVariables example_transport) = Returns (Inr r) \<and>
        map_option URL_Scheme (Req_URL r) = Some ''https'') \<and>
   (\<exists>r. StopTestProxy_TestProxyVariables_request (example_Env example_transport)
          (example_TestProxyVariables example_transport) = Returns (Inr r) \<and>
        map_option URL_Scheme (Req_URL r) = Some ''https'') \<and>
   (\<exists>req'. TestProxyTransport_Do_rewrite example_TestProxyTransport example_http_Request =
          Returns req' \<and>
        map_option URL_Scheme (Req_URL req') = Some ''http'')"
proof -
  let ?E = "example_Env example_transport"
  let ?T = "''TestCosmosDBTables''"
  let ?U1 = "\<lparr>URL_Scheme = ''https'', URL_Host = ''localhost:5001'',
      URL_Path = ''/record/start'', URL_RawQuery = [], URL_Fragment = []\<rparr>"
  let ?U2 = "\<lparr>URL_Scheme = ''https'', URL_Host = ''localhost:5001'',
      URL_Path = ''/record/stop'', URL_RawQuery = [], URL_Fragment = []\<rparr>"
  let ?V = "example_TestProxyVariable" and ?V' = "example_TestProxyVariable\<lparr>tpv_Port := 8080\<rparr>"
  let ?P = "example_TestProxy" and ?P' = "example_TestProxy\<lparr>tp_Port := 8080\<rparr>"
  let ?S = "example_TestProxyVariables example_transport"
  have s: "TestProxyVariable_scheme ?V = ''https''" "TestProxyVariable_scheme ?V' = ''http''"
    by (simp_all add: TestProxyVariable_scheme_def example_defs)
  have p1: "url_Parse ?E (TestProxyVariable_scheme ?V @ ''://'' @ tpv_Host ?V @ '':''
        @ Itoa (tpv_Port ?V) @ ''/'' @ tpv_Mode ?V @ ''/start'') = Inr ?U1"
    "url_Parse ?E (''https://'' @ tp_Host ?P @ '':'' @ Itoa (tp_Port ?P) @ ''/'' @ tp_Mode ?P
        @ ''/start'') = Inr ?U1"
    "url_Parse ?E (''https://'' @ tpvs_Host ?S @ '':'' @ Itoa (tpvs_Port ?S) @ ''/''
        @ tpvs_Mode ?S @ ''/start'') = Inr ?U1"
    by (simp_all add: TestProxyVariable_scheme_def example_env_defs example_defs Itoa_5001)
  have p2: "url_Parse ?E (TestProxyVariable_scheme ?V @ ''://'' @ tpv_Host ?V @ '':''
        @ Itoa (tpv_Port ?V) @ ''/'' @ tpv_Mode ?V @ ''/stop'') = Inr ?U2"
    "url_Parse ?E (''https://'' @ tp_Host ?P @ '':'' @ Itoa (tp_Port ?P) @ ''/'' @ tp_Mode ?P
        @ ''/stop'') = Inr ?U2"
    "url_Parse ?E (''https://'' @ tpvs_Host ?S @ '':'' @ Itoa (tpvs_Port ?S) @ ''/''
        @ tpvs_Mode ?S @ ''/stop'') = Inr ?U2"
    by (simp_all add: TestProxyVariable_scheme_def example_env_defs example_defs Itoa_5001)
  have m: "\<exists>m. json_Marshal ?E [(''x-recording-file'', x)] = Inr m" for x
    by (simp add: example_env_defs)
  obtain m1 where m1: "json_Marshal ?E [(''x-recording-file'',
        path_Join ?E [tpv_RecordingPath ?V, ''recordings'', ?T @ ''.json''])] = Inr m1"
    using m by blast
  obtain m2 where m2: "json_Marshal ?E [(''x-recording-file'',
        path_Join ?E [tp_RecordingPath ?P, ''recordings'', ?T @ ''.json''])] = Inr m2"
    using m by blast
  obtain m3 where m3: "json_Marshal ?E [(''x-recording-file'', tpvs_CurrentRecordingPath ?S)] =
      Inr m3"
    using m by blast
  have q: "Req_URL example_Request = Some example_URL"
    "Req_Header example_Request = Some example_Header"
    "Req_URL (Raw example_policy_Request) = Some example_URL"
    "Req_Header (Raw example_policy_Request) = Some example_Header"
    "Req_URL example_http_Request = Some (example_URL\<lparr>URL_Scheme := ''http''\<rparr>)"
    "Req_Header example_http_Request = Some example_Header"
    "URL_Scheme example_URL = ''https''" "URL_Host example_URL = ''service.example.com''"
    by (simp_all add: example_defs example_http_Request_def)
  have a: "\<exists>r. StartTestProxy_TestProxyVariable_request ?E ?T ?V = Returns (Inr r) \<and>
        map_option URL_Scheme (Req_URL r) = Some ''https''"
    using scheme_selection [THEN conjunct2, THEN conjunct2, THEN conjunct1, rule_format, OF conjI [OF p1(1) m1]] by auto
  have b: "\<exists>r. StopTestProxy_TestProxyVariable_request ?E ?V = Returns (Inr r) \<and>
        map_option URL_Scheme (Req_URL r) = Some ''https''"
    using scheme_selection [THEN conjunct2, THEN conjunct2, THEN conjunct2, THEN conjunct1, rule_format, OF p2(1)] by auto
  have c: "\<exists>req'. TestProxyVariable_Do_rewrite ?V' example_Request =
          Returns (''https'', ''service.example.com'', req') \<and>
        map_option URL_Scheme (Req_URL req') = Some ''http''"
    using scheme_selection [THEN conjunct2, THEN conjunct2, THEN conjunct2, THEN conjunct2, THEN conjunct1, rule_format, OF conjI [OF q(1) q(2)], of ?V']
    unfolding q s by auto
  have d: "\<exists>r. StartTestProxy_TestProxy_request ?E ?T ?P = Returns (Inr r) \<and>
        map_option URL_Scheme (Req_URL r) = Some ''https''"
    using scheme_selection [THEN conjunct2, THEN conjunct2, THEN conjunct2, THEN conjunct2, THEN conjunct2, THEN conjunct2, THEN conjunct2, THEN conjunct1, rule_format, OF conjI [OF p1(2) m2]] by auto
  have e: "\<exists>r. StopTestProxy_TestProxy_request ?E ?P = Returns (Inr r) \<and>
        map_option URL_Scheme (Req_URL r) = Some ''https''"
    using scheme_selection [THEN conjunct2, THEN conjunct2, THEN conjunct2, THEN conjunct2, THEN conjunct2, THEN conjunct2, THEN conjunct2, THEN conjunct2, THEN conjunct1, rule_format, OF p2(2)] by auto
  have f: "\<exists>req'. TestProxy_Do_rewrite ?P' example_policy_Request =
          Returns (''https'', ''service.example.com'', req') \<and>
        map_option URL_Scheme (Req_URL req') = Some ''https''"
    using scheme_selection [THEN conjunct2, THEN conjunct2, THEN conjunct2, THEN conjunct2, THEN conjunct2, THEN conjunct2, THEN conjunct2, THEN conjunct2, THEN conjunct2, THEN conjunct1, rule_format, OF conjI [OF q(3) q(4)], of ?P']
    unfolding q by auto
  have g: "\<exists>r. StartTestProxy_TestProxyVariables_request ?E ?S = Returns (Inr r) \<and>
        map_option URL_Scheme (Req_URL r) = Some ''https''"
    using scheme_selection [THEN conjunct2, THEN conjunct2, THEN conjunct2, THEN conjunct2, THEN conjunct2, THEN conjunct2, THEN conjunct2, THEN conjunct2, THEN conjunct2, THEN conjunct2, THEN conjunct1, rule_format, OF conjI [OF p1(3) m3]] by auto
  have h: "\<exists>r. StopTestProxy_TestProxyVariables_request ?E ?S = Returns (Inr r) \<and>
        map_option URL_Scheme (Req_URL r) = Some ''https''"
    using scheme_selection [THEN conjunct2, THEN conjunct2, THEN conjunct2, THEN conjunct2, THEN conjunct2, THEN conjunct2, THEN conjunct2, THEN conjunct2, THEN conjunct2, THEN conjunct2, THEN conjunct2, THEN conjunct1, rule_format, OF p2(3)] by auto
  have i: "\<exists>req'. TestProxyTransport_Do_rewrite example_TestProxyTransport
          example_http_Request = Returns req' \<and>
        map_option URL_Scheme (Req_URL req') = Some ''http''"
    using scheme_selection [THEN conjunct2, THEN conjunct2, THEN conjunct2, THEN conjunct2, THEN conjunct2, THEN conjunct2, THEN conjunct2, THEN conjunct2, THEN conjunct2, THEN conjunct2, THEN conjunct2, THEN conjunct2, rule_format, OF conjI [OF q(5) q(6)],
        of example_TestProxyTransport] by auto
  show ?thesis
    using s a b c d e f g h i by (intro conjI)
qed

text \<open>
  The claim as stated fails in the variant with \<^verbatim>\<open>TestProxy\<close>: on port 8080 its scheme is
  still \<^verbatim>\<open>https\<close>.
\<close>

theorem scheme_selection_counterexample:
  "tp_Port (example_TestProxy\<lparr>tp_Port := 8080\<rparr>) = 8080 \<and>
   TestProxy_scheme (example_TestProxy\<lparr>tp_Port := 8080\<rparr>) = ''https'' \<and>
   TestProxy_baseURL (example_TestProxy\<lparr>tp_Port := 8080\<rparr>) = ''https://localhost:8080''"
  by (simp add: TestProxy_scheme_def TestProxy_baseURL_def example_TestProxy_def Itoa_8080)

section \<open>The session after start\<close>

text \<open>
  Claim C9, amended. In the variants with \<^verbatim>\<open>TestProxy\<close> and \<^verbatim>\<open>TestProxyVariable\<close>:
  a start call that returns an error because the session is \<^verbatim>\<open>nil\<close>, the request cannot
  be built, the client returns an error, or the response carries no recording id, leaves
  the session unchanged. When the client answers with a response carrying a non-empty
  recording id, \<^verbatim>\<open>StartTestProxy\<close> stores that id in the session before it reads the
  response body, and then returns the error of reading the body, or of parsing a non-empty
  body as JSON, or no error: in each of these cases the session's recording id is the
  response's id. So the recording id is also assigned on a start call that fails on the
  response body.
\<close>

theorem start_session_id:
  "StartTestProxy_TestProxy env t None = Returns (Some (Errorf ''TestProxy not empty''), None) \<and>
   (StartTestProxy_TestProxy_request env t tp = Returns (Inl e) \<longrightarrow>
      StartTestProxy_TestProxy env t (Some tp) = Returns (Some e, Some tp)) \<and>
   (StartTestProxy_TestProxy_request env t tp = Returns (Inr req) \<and>
    client env req = (ro, Some e) \<longrightarrow>
      StartTestProxy_TestProxy env t (Some tp) = Returns (Some e, Some tp)) \<and>
   (StartTestProxy_TestProxy_request env t tp = Returns (Inr req) \<and>
    client env req = (Some resp, None) \<and>
    Header_Get (Resp_Header resp) ''x-recording-id'' = [] \<longrightarrow>
      StartTestProxy_TestProxy env t (Some tp) =
        Returns (Some (case Resp_Body resp of
            Inl rerr \<Rightarrow> rerr
          | Inr b \<Rightarrow> Errorf (''recording ID was not returned by the response. Response body: '' @ b)),
          Some tp)) \<and>
   (StartTestProxy_TestProxy_request env t tp = Returns (Inr req) \<and>
    client env req = (Some resp, None) \<and>
    Header_Get (Resp_Header resp) ''x-recording-id'' \<noteq> [] \<longrightarrow>
      StartTestProxy_TestProxy env t (Some tp) =
        Returns (case Resp_Body resp of
            Inl rerr \<Rightarrow> Some rerr
          | Inr body \<Rightarrow> if body = [] then None else json_Unmarshal env body,
          Some (tp\<lparr>tp_RecordingId := Header_Get (Resp_Header resp) ''x-recording-id''\<rparr>))) \<and>
   StartTestProxy_TestProxyVariable env t None =
     Returns (Some (Errorf ''TestProxy not empty''), None) \<and>
   (StartTestProxy_TestProxyVariable_request env t tpv = Returns (Inl e) \<longrightarrow>
      StartTestProxy_TestProxyVariable env t (Some tpv) = Returns (Some e, Some tpv)) \<and>
   (StartTestProxy_TestProxyVariable_request env t tpv = Returns (Inr req) \<and>
    client env req = (ro, Some e) \<longrightarrow>
      StartTestProxy_TestProxyVariable env t (Some tpv) = Returns (Some e, Some tpv)) \<and>
   (StartTestProxy_TestProxyVariable_request env t tpv = Returns (Inr req) \<and>
    client env req = (Some resp, None) \<and>
    Header_Get (Resp_Header resp) ''x-recording-id'' = [] \<longrightarrow>
      StartTestProxy_TestProxyVariable env t (Some tpv) =
        Returns (Some (case Resp_Body resp of
            Inl rerr \<Rightarrow> rerr
          | Inr b \<Rightarrow> Errorf (''recording ID was not returned by the response. Response body: '' @ b)),
          Some tpv)) \<and>
   (StartTestProxy_TestProxyVariable_request env t tpv = Returns (Inr req) \<and>
    client env req = (Some resp, None) \<and>
    Header_Get (Resp_Header resp) ''x-recording-id'' \<noteq> [] \<longrightarrow>
      StartTestProxy_TestProxyVariable env t (Some tpv) =
        Returns (case Resp_Body resp of
            Inl rerr \<Rightarrow> Some rerr
          | Inr body \<Rightarrow> if body = [] then None else json_Unmarshal env body,
          Some (tpv\<lparr>tpv_RecordingId := Header_Get (Resp_Header resp) ''x-recording-id''\<rparr>)))"
proof (intro conjI impI)
  show "StartTestProxy_TestProxy env t None = Returns (Some (Errorf ''TestProxy not empty''), None)"
    by (simp add: StartTestProxy_TestProxy_def)
  show "StartTestProxy_TestProxyVariable env t None =
      Returns (Some (Errorf ''TestProxy not empty''), None)"
    by (simp add: StartTestProxy_TestProxyVariable_def)
next
  assume "StartTestProxy_TestProxy_request env t tp = Returns (Inl e)"
  then show "StartTestProxy_TestProxy env t (Some tp) = Returns (Some e, Some tp)"
    by (simp add: StartTestProxy_TestProxy_def exec_bind_def)
next
  assume "StartTestProxy_TestProxyVariable_request env t tpv = Returns (Inl e)"
  then show "StartTestProxy_TestProxyVariable env t (Some tpv) = Returns (Some e, Some tpv)"
    by (simp add: StartTestProxy_TestProxyVariable_def exec_bind_def)
next
  assume "StartTestProxy_TestProxy_request env t tp = Returns (Inr req) \<and>
    client env req = (ro, Some e)"
  then show "StartTestProxy_TestProxy env t (Some tp) = Returns (Some e, Some tp)"
    by (simp add: StartTestProxy_TestProxy_def exec_bind_def split: option.splits)
next
  assume "StartTestProxy_TestProxyVariable_request env t tpv = Returns (Inr req) \<and>
    client env req = (ro, Some e)"
  then show "StartTestProxy_TestProxyVariable env t (Some tpv) = Returns (Some e, Some tpv)"
    by (simp add: StartTestProxy_TestProxyVariable_def exec_bind_def split: option.splits)
next
  assume a: "StartTestProxy_TestProxy_request env t tp = Returns (Inr req) \<and>
    client env req = (Some resp, None) \<and>
    Header_Get (Resp_Header resp) ''x-recording-id'' = []"
  then show "StartTestProxy_TestProxy env t (Some tp) =
        Returns (Some (case Resp_Body resp of
            Inl rerr \<Rightarrow> rerr
          | Inr b \<Rightarrow> Errorf (''recording ID was not returned by the response. Response body: '' @ b)),
          Some tp)"
    by (simp add: StartTestProxy_TestProxy_answered)
next
  assume a: "StartTestProxy_TestProxyVariable_request env t tpv = Returns (Inr req) \<and>
    client env req = (Some resp, None) \<and>
    Header_Get (Resp_Header resp) ''x-recording-id'' = []"
  then show "StartTestProxy_TestProxyVariable env t (Some tpv) =
        Returns (Some (case Resp_Body resp of
            Inl rerr \<Rightarrow> rerr
          | Inr b \<Rightarrow> Errorf (''recording ID was not returned by the response. Response body: '' @ b)),
          Some tpv)"
    by (simp add: StartTestProxy_TestProxyVariable_answered)
next
  assume a: "StartTestProxy_TestProxy_request env t tp = Returns (Inr req) \<and>
    client env req = (Some resp, None) \<and>
    Header_Get (Resp_Header resp) ''x-recording-id'' \<noteq> []"
  then show "StartTestProxy_TestProxy env t (Some tp) =
        Returns (case Resp_Body resp of
            Inl rerr \<Rightarrow> Some rerr
          | Inr body \<Rightarrow> if body = [] then None else json_Unmarshal env body,
          Some (tp\<lparr>tp_RecordingId := Header_Get (Resp_Header resp) ''x-recording-id''\<rparr>))"
    by (simp add: StartTestProxy_TestProxy_answered)
next
  assume a: "StartTestProxy_TestProxyVariable_request env t tpv = Returns (Inr req) \<and>
    client env req = (Some resp, None) \<and>
    Header_Get (Resp_Header resp) ''x-recording-id'' \<noteq> []"
  then show "StartTestProxy_TestProxyVariable env t (Some tpv) =
        Returns (case Resp_Body resp of
            Inl rerr \<Rightarrow> Some rerr
          | Inr body \<Rightarrow> if body = [] then None else json_Unmarshal env body,
          Some (tpv\<lparr>tpv_RecordingId := Header_Get (Resp_Header resp) ''x-recording-id''\<rparr>))"
    by (simp add: StartTestProxy_TestProxyVariable_answered)
qed

theorem start_session_id_witness:
  "(\<exists>req. StartTestProxy_TestProxy_request
        (example_Env (answering (example_Response 200 example_id_Header ''not json'')))
        ''TestCosmosDBTables'' example_new_TestProxy = Returns (Inr req)) \<and>
   Header_Get (Resp_Header (example_Response 200 example_id_Header ''not json''))
     ''x-recording-id'' = ''abc123'' \<and>
   StartTestProxy_TestProxy
       (example_Env (answering (example_Response 200 example_id_Header ''{}'')))
       ''TestCosmosDBTables'' (Some example_new_TestProxy) =
     Returns (None, Some (example_new_TestProxy\<lparr>tp_RecordingId := ''abc123''\<rparr>)) \<and>
   StartTestProxy_TestProxy
       (example_Env (answering (example_Response 200 example_id_Header ''not json'')))
       ''TestCosmosDBTables'' (Some example_new_TestProxy) =
     Returns (Some (External ''invalid character''),
       Some (example_new_TestProxy\<lparr>tp_RecordingId := ''abc123''\<rparr>)) \<and>
   StartTestProxy_TestProxy
       (example_Env (answering (example_Response 200 Map.empty ''no session'')))
       ''TestCosmosDBTables'' (Some example_new_TestProxy) =
     Returns (Some (Errorf
       ''recording ID was not returned by the response. Response body: no session''),
       Some example_new_TestProxy) \<and>
   StartTestProxy_TestProxy (example_Env (failing (External ''connection refused'')))
       ''TestCosmosDBTables'' (Some example_new_TestProxy) =
     Returns (Some (External ''connection refused''), Some example_new_TestProxy) \<and>
   StartTestProxy_TestProxyVariable
       (example_Env (answering (example_Response 200 example_id_Header ''{}'')))
       ''TestCosmosDBTables'' (Some example_new_TestProxyVariable) =
     Returns (None, Some (example_new_TestProxyVariable\<lparr>tpv_RecordingId := ''abc123''\<rparr>)) \<and>
   StartTestProxy_TestProxyVariable
       (example_Env (answering (example_Response 200 example_id_Header ''not json'')))
       ''TestCosmosDBTables'' (Some example_new_TestProxyVariable) =
     Returns (Some (External ''invalid character''),
       Some (example_new_TestProxyVariable\<lparr>tpv_RecordingId := ''abc123''\<rparr>)) \<and>
   StartTestProxy_TestProxyVariable
       (example_Env (answering (example_Response 200 Map.empty ''no session'')))
       ''TestCosmosDBTables'' (Some example_new_TestProxyVariable) =
     Returns (Some (Errorf
       ''recording ID was not returned by the response. Response body: no session''),
       Some example_new_TestProxyVariable) \<and>
   StartTestProxy_TestProxyVariable (example_Env (failing (External ''connection refused'')))
       ''TestCosmosDBTables'' (Some example_new_TestProxyVariable) =
     Returns (Some (External ''connection refused''), Some example_new_TestProxyVariable)"
proof -
  let ?T = "''TestCosmosDBTables''"
  let ?ok = "example_Response 200 example_id_Header ''{}''"
  let ?bad = "example_Response 200 example_id_Header ''not json''"
  let ?noid = "example_Response 200 Map.empty ''no session''"
  let ?err = "External ''connection refused''"
  have rp: "\<exists>req. StartTestProxy_TestProxy_request (example_Env c) ?T example_new_TestProxy =
      Returns (Inr req)" for c
    by (rule example_start_requests(1))
  have rv: "\<exists>req. StartTestProxy_TestProxyVariable_request (example_Env c) ?T
      example_new_TestProxyVariable = Returns (Inr req)" for c
    by (rule example_start_requests(2))
  have c: "client (example_Env (answering r)) q = (Some r, None)" for r q
    by (simp add: example_Env_def answering_def)
  have f: "client (example_Env (failing x)) q = (None, Some x)" for x q
    by (simp add: example_Env_def failing_def)
  have g: "Header_Get (Resp_Header ?ok) ''x-recording-id'' = ''abc123''"
    "Header_Get (Resp_Header ?bad) ''x-recording-id'' = ''abc123''"
    by (simp_all add: example_Response_def example_id_Header_Get)
  have n: "Header_Get (Resp_Header ?noid) ''x-recording-id'' = []"
    by (simp add: example_Response_def Header_Get_def)
  have b: "Resp_Body ?ok = Inr ''{}''" "Resp_Body ?bad = Inr ''not json''"
    "Resp_Body ?noid = Inr ''no session''"
    by (simp_all add: example_Response_def)
  have u: "json_Unmarshal (example_Env k) ''{}'' = None"
    "json_Unmarshal (example_Env k) ''not json'' = Some (External ''invalid character'')" for k
    by (simp_all add: example_Env_def example_json_Unmarshal_def)
  obtain p1 where p1: "StartTestProxy_TestProxy_request (example_Env (answering ?ok)) ?T
      example_new_TestProxy = Returns (Inr p1)" using rp by blast
  obtain p2 where p2: "StartTestProxy_TestProxy_request (example_Env (answering ?bad)) ?T
      example_new_TestProxy = Returns (Inr p2)" using rp by blast
  obtain p3 where p3: "StartTestProxy_TestProxy_request (example_Env (answering ?noid)) ?T
      example_new_TestProxy = Returns (Inr p3)" using rp by blast
  obtain p4 where p4: "StartTestProxy_TestProxy_request (example_Env (failing ?err)) ?T
      example_new_TestProxy = Returns (Inr p4)" using rp by blast
  obtain v1 where v1: "StartTestProxy_TestProxyVariable_request (example_Env (answering ?ok)) ?T
      example_new_TestProxyVariable = Returns (Inr v1)" using rv by blast
  obtain v2 where v2: "StartTestProxy_TestProxyVariable_request (example_Env (answering ?bad)) ?T
      example_new_TestProxyVariable = Returns (Inr v2)" using rv by blast
  obtain v3 where v3: "StartTestProxy_TestProxyVariable_request (example_Env (answering ?noid)) ?T
      example_new_TestProxyVariable = Returns (Inr v3)" using rv by blast
  obtain v4 where v4: "StartTestProxy_TestProxyVariable_request (example_Env (failing ?err)) ?T
      example_new_TestProxyVariable = Returns (Inr v4)" using rv by blast
  have 1: "StartTestProxy_TestProxy (example_Env (answering ?ok)) ?T (Some example_new_TestProxy) =
     Returns (None, Some (example_new_TestProxy\<lparr>tp_RecordingId := ''abc123''\<rparr>))"
    using start_session_id [where env = "example_Env (answering ?ok)" and t = ?T
        and tp = example_new_TestProxy and req = p1 and resp = ?ok] p1 c g b u by simp
  have 2: "StartTestProxy_TestProxy (example_Env (answering ?bad)) ?T (Some example_new_TestProxy) =
     Returns (Some (External ''invalid character''),
       Some (example_new_TestProxy\<lparr>tp_RecordingId := ''abc123''\<rparr>))"
    using start_session_id [where env = "example_Env (answering ?bad)" and t = ?T
        and tp = example_new_TestProxy and req = p2 and resp = ?bad] p2 c g b u by simp
  have 3: "StartTestProxy_TestProxy (example_Env (answering ?noid)) ?T (Some example_new_TestProxy) =
     Returns (Some (Errorf
       ''recording ID was not returned by the response. Response body: no session''),
       Some example_new_TestProxy)"
    using start_session_id [where env = "example_Env (answering ?noid)" and t = ?T
        and tp = example_new_TestProxy and req = p3 and resp = ?noid] p3 c n b by simp
  have 4: "StartTestProxy_TestProxy (example_Env (failing ?err)) ?T (Some example_new_TestProxy) =
     Returns (Some ?err, Some example_new_TestProxy)"
    using start_session_id [where env = "example_Env (failing ?err)" and t = ?T
        and tp = example_new_TestProxy and req = p4 and ro = None and e = ?err] p4 f by simp
  have 5: "StartTestProxy_TestProxyVariable (example_Env (answering ?ok)) ?T
      (Some example_new_TestProxyVariable) =
     Returns (None, Some (example_new_TestProxyVariable\<lparr>tpv_RecordingId := ''abc123''\<rparr>))"
    using start_session_id [where env = "example_Env (answering ?ok)" and t = ?T
        and tpv = example_new_TestProxyVariable and req = v1 and resp = ?ok] v1 c g b u by simp
  have 6: "StartTestProxy_TestProxyVariable (example_Env (answering ?bad)) ?T
      (Some example_new_TestProxyVariable) =
     Returns (Some (External ''invalid character''),
       Some (example_new_TestProxyVariable\<lparr>tpv_RecordingId := ''abc123''\<rparr>))"
    using start_session_id [where env = "example_Env (answering ?bad)" and t = ?T
        and tpv = example_new_TestProxyVariable and req = v2 and resp = ?bad] v2 c g b u by simp
  have 7: "StartTestProxy_TestProxyVariable (example_Env (answering ?noid)) ?T
      (Some example_new_TestProxyVariable) =
     Returns (Some (Errorf
       ''recording ID was not returned by the response. Response body: no session''),
       Some example_new_TestProxyVariable)"
    using start_session_id [where env = "example_Env (answering ?noid)" and t = ?T
        and tpv = example_new_TestProxyVariable and req = v3 and resp = ?noid] v3 c n b by simp
  have 8: "StartTestProxy_TestProxyVariable (example_Env (failing ?err)) ?T
      (Some example_new_TestProxyVariable) =
     Returns (Some ?err, Some example_new_TestProxyVariable)"
    using start_session_id [where env = "example_Env (failing ?err)" and t = ?T
        and tpv = example_new_TestProxyVariable and req = v4 and ro = None and e = ?err] v4 f
    by simp
  show ?thesis
    using p2 g(2) 1 2 3 4 5 6 7 8 by blast
qed

text \<open>
  The claim as stated fails: the response carries the recording id \<^verbatim>\<open>abc123\<close> and a body
  that is not JSON; \<^verbatim>\<open>StartTestProxy\<close> returns the parse error, and the session, whose
  recording id was empty, now holds \<^verbatim>\<open>abc123\<close>.
\<close>

theorem start_session_id_counterexample:
  "tp_RecordingId example_new_TestProxy = [] \<and>
   StartTestProxy_TestProxy
       (example_Env (answering (example_Response 200 example_id_Header ''not json'')))
       ''TestCosmosDBTables'' (Some example_new_TestProxy) =
     Returns (Some (External ''invalid character''),
       Some (example_new_TestProxy\<lparr>tp_RecordingId := ''abc123''\<rparr>)) \<and>
   tpv_RecordingId example_new_TestProxyVariable = [] \<and>
   StartTestProxy_TestProxyVariable
       (example_Env (answering (example_Response 200 example_id_Header ''not json'')))
       ''TestCosmosDBTables'' (Some example_new_TestProxyVariable) =
     Returns (Some (External ''invalid character''),
       Some (example_new_TestProxyVariable\<lparr>tpv_RecordingId := ''abc123''\<rparr>))"
  by (simp add: Start_defs example_env_defs example_defs Itoa_5001 RecordingIdHeader_def
      example_id_Header_Get)

section \<open>The rest of the request\<close>

text \<open>
  Claim C10. For every request passed to \<^verbatim>\<open>Do\<close> (one with a URL and a header map, in each
  of the three variants), the request handed to the send primitive equals the original
  one in every field but the URL, the \<^verbatim>\<open>Host\<close> field and the header map; its URL equals
  the original URL in every field but scheme and host; its header map equals the original
  one at every key but the three recording headers. In particular the method, the body,
  the content length, the URL path, query and fragment, and every other header are those
  of the original request.
\<close>

theorem rest_of_request_unchanged:
  assumes "Req_URL req = Some u" and "Req_Header req = Some h" and "Raw preq = req"
  shows
    "(\<exists>req'. TestProxyVariable_Do_rewrite tpv req = Returns (URL_Scheme u, URL_Host u, req') \<and>
        TestProxyVariable_Do tpv req = restore_target (URL_Scheme u) (URL_Host u) (tpv_Client tpv req') \<and>
        req' = req\<lparr>Req_URL := Req_URL req', Req_Host := Req_Host req',
                    Req_Header := Req_Header req'\<rparr> \<and>
        Req_Method req' = Req_Method req \<and>
        Req_Body req' = Req_Body req \<and>
        Req_ContentLength req' = Req_ContentLength req \<and>
        (\<exists>u'. Req_URL req' = Some u' \<and>
           u' = u\<lparr>URL_Scheme := URL_Scheme u', URL_Host := URL_Host u'\<rparr> \<and>
           URL_Path u' = URL_Path u \<and>
           URL_RawQuery u' = URL_RawQuery u \<and>
           URL_Fragment u' = URL_Fragment u) \<and>
        (\<exists>h'. Req_Header req' = Some h' \<and>
           (\<forall>k. k \<notin> {''X-Recording-Upstream-Base-Uri'', ''X-Recording-Mode'',
                       ''X-Recording-Id''} \<longrightarrow> h' k = h k)) \<and>
        (\<forall>key. CanonicalMIMEHeaderKey key \<notin> {''X-Recording-Upstream-Base-Uri'',
                    ''X-Recording-Mode'', ''X-Recording-Id''} \<longrightarrow>
           Request_Header_Get req' key = Request_Header_Get req key)) \<and>
     (\<exists>req'. TestProxy_Do_rewrite tp preq = Returns (URL_Scheme u, URL_Host u, req') \<and>
        TestProxy_Do tp preq = restore_target (URL_Scheme u) (URL_Host u) (Next preq req') \<and>
        req' = req\<lparr>Req_URL := Req_URL req', Req_Host := Req_Host req',
                    Req_Header := Req_Header req'\<rparr> \<and>
        Req_Method req' = Req_Method req \<and>
        Req_Body req' = Req_Body req \<and>
        Req_ContentLength req' = Req_ContentLength req \<and>
        (\<exists>u'. Req_URL req' = Some u' \<and>
           u' = u\<lparr>URL_Scheme := URL_Scheme u', URL_Host := URL_Host u'\<rparr> \<and>
           URL_Path u' = URL_Path u \<and>
           URL_RawQuery u' = URL_RawQuery u \<and>
           URL_Fragment u' = URL_Fragment u) \<and>
        (\<exists>h'. Req_Header req' = Some h' \<and>
           (\<forall>k. k \<notin> {''X-Recording-Upstream-Base-Uri'', ''X-Recording-Mode'',
                       ''X-Recording-Id''} \<longrightarrow> h' k = h k)) \<and>
        (\<forall>key. CanonicalMIMEHeaderKey key \<notin> {''X-Recording-Upstream-Base-Uri'',
                    ''X-Recording-Mode'', ''X-Recording-Id''} \<longrightarrow>
           Request_Header_Get req' key = Request_Header_Get req key)) \<and>
     (\<exists>req'. TestProxyTransport_Do_rewrite tpt req = Returns req' \<and>
        TestProxyTransport_Do tpt req = Returns (tpt_transport tpt req') \<and>
        req' = req\<lparr>Req_URL := Req_URL req', Req_Host := Req_Host req',
                    Req_Header := Req_Header req'\<rparr> \<and>
        Req_Method req' = Req_Method req \<and>
        Req_Body req' = Req_Body req \<and>
        Req_ContentLength req' = Req_ContentLength req \<and>
        (\<exists>u'. Req_URL req' = Some u' \<and>
           u' = u\<lparr>URL_Scheme := URL_Scheme u', URL_Host := URL_Host u'\<rparr> \<and>
           URL_Path u' = URL_Path u \<and>
           URL_RawQuery u' = URL_RawQuery u \<and>
           URL_Fragment u' = URL_Fragment u) \<and>
        (\<exists>h'. Req_Header req' = Some h' \<and>
           (\<forall>k. k \<notin> {''X-Recording-Upstream-Base-Uri'', ''X-Recording-Mode'',
                       ''X-Recording-Id''} \<longrightarrow> h' k = h k)) \<and>
        (\<forall>key. CanonicalMIMEHeaderKey key \<notin> {''X-Recording-Upstream-Base-Uri'',
                    ''X-Recording-Mode'', ''X-Recording-Id''} \<longrightarrow>
           Request_Header_Get req' key = Request_Header_Get req key))"
proof -
  note rv = TestProxyVariable_Do_rewrite_Returns [OF assms(1,2), of tpv]
  note rp = TestProxy_Do_rewrite_Returns [of preq u h tp, unfolded assms(3), OF assms(1,2)]
  note rt = TestProxyTransport_Do_rewrite_Returns [OF assms(1,2), of tpt]
  show ?thesis
    apply (intro conjI)
      apply (rule exI, rule conjI, rule rv, rule conjI, rule TestProxyVariable_Do_eq [OF rv])
      apply (simp add: Header_Set_def Header_Get_def Request_Header_Get_def assms
        header_name_defs canon_keys)
     apply (rule exI, rule conjI, rule rp, rule conjI, rule TestProxy_Do_eq [OF rp])
     apply (simp add: Header_Set_def Header_Get_def Request_Header_Get_def assms
        header_name_defs canon_keys)
    apply (rule exI, rule conjI, rule rt, rule conjI, rule TestProxyTransport_Do_eq [OF rt])
    apply (simp add: Header_Set_def Header_Get_def Request_Header_Get_def assms canon_keys)
    done
qed

theorem rest_of_request_unchanged_witness:
  "Req_URL example_Request = Some example_URL \<and>
   Req_Header example_Request = Some example_Header \<and>
   Raw example_policy_Request = example_Request \<and>
   (\<exists>req'. TestProxyVariable_Do_rewrite example_TestProxyVariable example_Request = Returns (''https'', ''service.example.com'', req') \<and>
      Req_Method req' = ''GET'' \<and>
      Req_Body req' = None \<and>
      map_option URL_Path (Req_URL req') = Some ''/foo'' \<and>
      map_option URL_RawQuery (Req_URL req') = Some ''a=1'' \<and>
      Request_Header_Get req' ''Accept'' = ''application/json'') \<and>
   (\<exists>req'. TestProxy_Do_rewrite example_TestProxy example_policy_Request = Returns (''https'', ''service.example.com'', req') \<and>
      Req_Method req' = ''GET'' \<and>
      Req_Body req' = None \<and>
      map_option URL_Path (Req_URL req') = Some ''/foo'' \<and>
      map_option URL_RawQuery (Req_URL req') = Some ''a=1'' \<and>
      Request_Header_Get req' ''Accept'' = ''application/json'') \<and>
   (\<exists>req'. TestProxyTransport_Do_rewrite example_TestProxyTransport example_Request = Returns req' \<and>
      Req_Method req' = ''GET'' \<and>
      Req_Body req' = None \<and>
      map_option URL_Path (Req_URL req') = Some ''/foo'' \<and>
      map_option URL_RawQuery (Req_URL req') = Some ''a=1'' \<and>
      Request_Header_Get req' ''Accept'' = ''application/json'')"
proof -
  have h1: "Req_URL example_Request = Some example_URL"
    by (simp add: example_Request_def)
  have h2: "Req_Header example_Request = Some example_Header"
    by (simp add: example_Request_def)
  have h3: "Raw example_policy_Request = example_Request"
    by (simp add: example_policy_Request_def)
  have other: "CanonicalMIMEHeaderKey ''Accept'' \<notin>
      {''X-Recording-Upstream-Base-Uri'', ''X-Recording-Mode'', ''X-Recording-Id''}"
    by (simp add: canon_Accept)
  have v: "URL_Scheme example_URL = ''https''" "URL_Host example_URL = ''service.example.com''"
    by (simp_all add: example_defs)
  note T = rest_of_request_unchanged [OF h1 h2 h3, of example_TestProxyVariable
      example_TestProxy example_TestProxyTransport, unfolded v]
  have a: "\<exists>req'. TestProxyVariable_Do_rewrite example_TestProxyVariable example_Request = Returns (''https'', ''service.example.com'', req') \<and>
      Req_Method req' = Req_Method example_Request \<and>
      Req_Body req' = Req_Body example_Request \<and>
      map_option URL_Path (Req_URL req') = Some (URL_Path example_URL) \<and>
      map_option URL_RawQuery (Req_URL req') = Some (URL_RawQuery example_URL) \<and>
      Request_Header_Get req' ''Accept'' = Request_Header_Get example_Request ''Accept''"
    using T other by (elim conjE exE) (intro exI conjI, assumption, simp_all)
  have b: "\<exists>req'. TestProxy_Do_rewrite example_TestProxy example_policy_Request = Returns (''https'', ''service.example.com'', req') \<and>
      Req_Method req' = Req_Method example_Request \<and>
      Req_Body req' = Req_Body example_Request \<and>
      map_option URL_Path (Req_URL req') = Some (URL_Path example_URL) \<and>
      map_option URL_RawQuery (Req_URL req') = Some (URL_RawQuery example_URL) \<and>
      Request_Header_Get req' ''Accept'' = Request_Header_Get example_Request ''Accept''"
    using T other by (elim conjE exE) (intro exI conjI, assumption, simp_all)
  have c: "\<exists>req'. TestProxyTransport_Do_rewrite example_TestProxyTransport example_Request = Returns req' \<and>
      Req_Method req' = Req_Method example_Request \<and>
      Req_Body req' = Req_Body example_Request \<and>
      map_option URL_Path (Req_URL req') = Some (URL_Path example_URL) \<and>
      map_option URL_RawQuery (Req_URL req') = Some (URL_RawQuery example_URL) \<and>
      Request_Header_Get req' ''Accept'' = Request_Header_Get example_Request ''Accept''"
    using T other by (elim conjE exE) (intro exI conjI, assumption, simp_all)
  have e: "Req_Method example_Request = ''GET''" "Req_Body example_Request = None"
    "URL_Path example_URL = ''/foo''" "URL_RawQuery example_URL = ''a=1''"
    "Request_Header_Get example_Request ''Accept'' = ''application/json''"
    by (simp_all add: example_defs Request_Header_Get_def Header_Get_def canon_Accept)
  show ?thesis
    using h1 h2 h3 a b c unfolding e by (intro conjI)
qed

end
